theory Spec2Isabelle
  imports
    Complex_Main
    "HOL-Library.Multiset"
    "HOL-Library.Sublist"
    "HOL-Library.AList"
    "HOL-Library.Char_ord"
    "HOL-Library.List_Lexorder"
begin

section \<open>StyleStats analysis engine: the data model\<close>

text \<open>
  The engine is the \<open>Analyzer\<close> class of the repository: \<open>analyzeRules\<close>,
  \<open>analyzeSelectors\<close>, \<open>analyzeDeclarations\<close> and the aggregator \<open>analyze\<close>.
  Each JavaScript function is a HOL function of the same name; the callbacks of the
  \<open>forEach\<close> loops are functions on the state the loop mutates.

  \<^item> Strings are \<^typ>\<open>string\<close>, read as ASCII text: \<open>trim\<close>, \<open>toUpperCase\<close> and the
    classes \<open>\s\<close>, \<open>\w\<close>, \<open>\d\<close> are the ASCII ones.
  \<^item> Counts, lengths and sizes are \<^typ>\<open>nat\<close>. A value that JavaScript computes as a
    number that need not be a count (the two quotients, the counters of the dictionaries) is
    a \<open>number\<close>: an exact rational, \<open>Infinity\<close> or \<open>NaN\<close> (the rounding of a quotient to a
    double is not modelled). A count of the property statistics is a \<open>count_value\<close>, a
    natural number or the string that \<open>+= 1\<close> builds from a value that is not a number.
  \<^item> Arrays are lists, objects used as dictionaries are association lists in the order
    their keys were created, and an absent value (\<open>undefined\<close>, \<open>null\<close>, a key that was
    never set) is \<open>None\<close>.
  \<^item> A thrown exception is the \<open>Inl\<close> branch of a sum; it ends every loop and every
    function it passes through, as nothing in the class catches one.
  \<^item> What the class takes from outside the repository, the regular expression compiler of
    the runtime for the two patterns built from the options, the selector parser and the
    compression function, is a parameter (\<open>runtime\<close>), so the theorems hold for every such
    collaborator. The regular expressions written in the source are given as syntax trees
    and run by the matcher below.
\<close>

datatype error =
    SyntaxError          \<comment> \<open>thrown by \<open>new RegExp\<close> on an invalid pattern\<close>
  | TypeError            \<comment> \<open>a call of a member that is not a function\<close>
  | ParseError           \<comment> \<open>thrown by the selector parser\<close>
  | CompressionError     \<comment> \<open>thrown by \<open>gzipSize.sync\<close>\<close>
  | Unmodelled           \<comment> \<open>a pattern or selector outside what the sample runtime covers\<close>

record css_declaration =
  decl_property :: string
  decl_value :: string
  decl_source :: nat      \<comment> \<open>opaque location token, compared by identity only\<close>

text \<open>
  A rule of the parsed stylesheet. \<open>analyzeRules\<close> asks \<open>Array.isArray(rule.declarations)\<close>,
  so the field is optional: \<open>None\<close> is a rule that carries no declaration array.
\<close>

record css_rule =
  rule_selectors :: "string list"
  rule_declarations :: "css_declaration list option"

text \<open>
  The entries of the ranked lists are objects with a \<open>count\<close> and either a \<open>selector\<close>
  (\<open>cssDeclarations\<close>, \<open>identifiers\<close>) or a \<open>property\<close> (\<open>properties\<close>). The count of a
  selector entry is a length, a natural number. The count of a property entry is what
  \<open>result.properties[declaration.property] += 1\<close> has built: a natural number, or a string
  when the first value read under that key was not a number.
\<close>

datatype count_value = Num nat | Str string


record 'n counted =
  count :: 'n

record 'a selector_count = "nat counted" +
  selector :: 'a

record property_count = "count_value counted" +
  property :: string

section \<open>The JavaScript runtime: arrays\<close>

text \<open>
  \<open>Array.prototype.forEach\<close> with a callback that may throw: the state is threaded through
  the elements in order and the first exception ends the loop.
\<close>

fun forEach :: "('a \<Rightarrow> 's \<Rightarrow> error + 's) \<Rightarrow> 'a list \<Rightarrow> 's \<Rightarrow> error + 's" where
  "forEach f [] st = Inr st"
| "forEach f (x # xs) st = (case f x st of Inl e \<Rightarrow> Inl e | Inr st' \<Rightarrow> forEach f xs st')"

text \<open>
  \<open>Array.prototype.sort(compare)\<close>: a stable sort (as ECMAScript 2019 requires), here
  insertion sort. An element stays in front of a later one unless \<open>compare\<close> is positive.
\<close>

primrec insort_cmp :: "('a \<Rightarrow> 'a \<Rightarrow> int) \<Rightarrow> 'a \<Rightarrow> 'a list \<Rightarrow> 'a list" where
  "insort_cmp cmp x [] = [x]"
| "insort_cmp cmp x (y # ys) = (if cmp x y \<le> 0 then x # y # ys else y # insort_cmp cmp x ys)"

definition Array_sort :: "('a \<Rightarrow> 'a \<Rightarrow> int) \<Rightarrow> 'a list \<Rightarrow> 'a list" where
  "Array_sort cmp xs = foldr (insort_cmp cmp) xs []"

text \<open>
  The comparator \<open>function decreasingOrder(a, b) { return b.count - a.count; }\<close>, which
  each of the three \<open>sort\<close> calls of the source declares anew. For the property entries
  (\<open>decreasingOrder_properties\<close>) a count that is a string makes the difference \<open>NaN\<close>, which
  \<open>sort\<close> reads as 0: the strings that arise hold text other than digits. With such an
  entry the comparator is not consistent and the order of the result is left to the engine;
  the insertion sort above gives one such order.
\<close>

definition decreasingOrder :: "(nat, 'a) counted_scheme \<Rightarrow> (nat, 'a) counted_scheme \<Rightarrow> int" where
  "decreasingOrder a b = int (count b) - int (count a)"

definition decreasingOrder_properties :: "property_count \<Rightarrow> property_count \<Rightarrow> int" where
  "decreasingOrder_properties a b =
     (case (count b, count a) of
        (Num m, Num n) \<Rightarrow> int m - int n
      | _ \<Rightarrow> 0)"

section \<open>The JavaScript runtime: strings\<close>

definition whitespace :: "char list" where
  "whitespace = [CHR '' '', CHR 0x09, CHR 0x0A, CHR 0x0B, CHR 0x0C, CHR 0x0D]"

definition digit_chars :: "char list" where
  "digit_chars = ''0123456789''"

definition lower_chars :: "char list" where
  "lower_chars = ''abcdefghijklmnopqrstuvwxyz''"

definition upper_chars :: "char list" where
  "upper_chars = ''ABCDEFGHIJKLMNOPQRSTUVWXYZ''"

definition word_chars :: "char list" where
  "word_chars = lower_chars @ upper_chars @ digit_chars @ ''_''"

definition trim :: "string \<Rightarrow> string" where
  "trim s = rev (dropWhile (\<lambda>c. c \<in> set whitespace) (rev (dropWhile (\<lambda>c. c \<in> set whitespace) s)))"

definition toUpperCase_char :: "char \<Rightarrow> char" where
  "toUpperCase_char c = (case map_of (zip lower_chars upper_chars) c of Some u \<Rightarrow> u | None \<Rightarrow> c)"

definition toUpperCase :: "string \<Rightarrow> string" where
  "toUpperCase s = map toUpperCase_char s"

text \<open>\<open>contains sub s\<close> is the test \<open>s.indexOf(sub) > -1\<close>.\<close>

fun contains :: "string \<Rightarrow> string \<Rightarrow> bool" where
  "contains sub [] = (sub = [])"
| "contains sub (c # cs) = (prefix sub (c # cs) \<or> contains sub cs)"

definition substring :: "string \<Rightarrow> nat \<Rightarrow> nat \<Rightarrow> string" where
  "substring s b e = take (e - b) (drop b s)"

section \<open>The JavaScript runtime: regular expressions\<close>

text \<open>
  A regular expression is a syntax tree; \<open>matcher r ignoreCase s x\<close> lists, in the order a
  backtracking matcher tries them, the states in which a match of \<open>r\<close> that starts in state
  \<open>x\<close> can end. A state is the index reached and the captures made so far. The first state
  of the list is the match ECMAScript reports. Quantifiers are greedy; \<open>RepeatMatcher\<close>
  follows the ECMAScript procedure of that name: an iteration that matches the empty string
  once the minimum is reached is rejected, and the captures of the groups inside the
  quantified term are cleared before every iteration. Its recursion is on a bound that the
  iterations cannot exceed, the minimum plus the length of the string
  (\<open>Repeat_bound_never_reached\<close> below).
\<close>

datatype regex =
    Empty
  | Class "char list"
  | Not_class "char list"
  | Seq regex regex
  | Alt regex regex
  | Repeat nat "nat option" regex
  | Group nat regex
  | Bol
  | Eol
  | Word_boundary

type_synonym captures = "(nat \<times> nat \<times> nat) list"
type_synonym mstate = "nat \<times> captures"

primrec group_numbers :: "regex \<Rightarrow> nat list" where
  "group_numbers Empty = []"
| "group_numbers (Class cs) = []"
| "group_numbers (Not_class cs) = []"
| "group_numbers (Seq r1 r2) = group_numbers r1 @ group_numbers r2"
| "group_numbers (Alt r1 r2) = group_numbers r1 @ group_numbers r2"
| "group_numbers (Repeat lo hi r) = group_numbers r"
| "group_numbers (Group n r) = n # group_numbers r"
| "group_numbers Bol = []"
| "group_numbers Eol = []"
| "group_numbers Word_boundary = []"

definition class_member :: "bool \<Rightarrow> char list \<Rightarrow> char \<Rightarrow> bool" where
  "class_member ignoreCase cs c =
     (if ignoreCase then toUpperCase_char c \<in> set (map toUpperCase_char cs) else c \<in> set cs)"

definition is_word_char :: "string \<Rightarrow> nat \<Rightarrow> bool" where
  "is_word_char s i = (i < length s \<and> s ! i \<in> set word_chars)"

primrec RepeatMatcher ::
  "(mstate \<Rightarrow> mstate list) \<Rightarrow> nat list \<Rightarrow> nat \<Rightarrow> nat \<Rightarrow> nat option \<Rightarrow> mstate \<Rightarrow> mstate list" where
  "RepeatMatcher m gs 0 lo hi x = [x]"
| "RepeatMatcher m gs (Suc bound) lo hi x =
     (if hi = Some 0 then [x]
      else let z = concat (map (\<lambda>y. if lo = 0 \<and> fst y = fst x then []
                                     else RepeatMatcher m gs bound (lo - 1) (map_option (\<lambda>h. h - 1) hi) y)
                            (m (fst x, filter (\<lambda>c. fst c \<notin> set gs) (snd x))))
           in if lo = 0 then z @ [x] else z)"

primrec matcher :: "regex \<Rightarrow> bool \<Rightarrow> string \<Rightarrow> mstate \<Rightarrow> mstate list" where
  "matcher Empty ic s x = [x]"
| "matcher (Class cs) ic s x =
     (if fst x < length s \<and> class_member ic cs (s ! fst x) then [(Suc (fst x), snd x)] else [])"
| "matcher (Not_class cs) ic s x =
     (if fst x < length s \<and> \<not> class_member ic cs (s ! fst x) then [(Suc (fst x), snd x)] else [])"
| "matcher (Seq r1 r2) ic s x = concat (map (matcher r2 ic s) (matcher r1 ic s x))"
| "matcher (Alt r1 r2) ic s x = matcher r1 ic s x @ matcher r2 ic s x"
| "matcher (Repeat lo hi r) ic s x =
     RepeatMatcher (matcher r ic s) (group_numbers r) (lo + Suc (length s)) lo hi x"
| "matcher (Group n r) ic s x = map (\<lambda>y. (fst y, (n, fst x, fst y) # snd y)) (matcher r ic s x)"
| "matcher Bol ic s x = (if fst x = 0 then [x] else [])"
| "matcher Eol ic s x = (if fst x = length s then [x] else [])"
| "matcher Word_boundary ic s x =
     (if (0 < fst x \<and> is_word_char s (fst x - 1)) \<noteq> is_word_char s (fst x) then [x] else [])"

text \<open>
  A matcher advances when every state it returns is at or after the state it started in, and
  within the string if it started there.
\<close>

definition advances :: "nat \<Rightarrow> (mstate \<Rightarrow> mstate list) \<Rightarrow> bool" where
  "advances n m = (\<forall>x y. y \<in> set (m x) \<longrightarrow> fst x \<le> fst y \<and> (fst x \<le> n \<longrightarrow> fst y \<le> n))"

text \<open>
  \<open>RegExpBuiltinExec\<close> searches from \<open>lastIndex\<close> for the first index at which the pattern
  matches and returns that index with the end state; past the end of the string it
  fails. \<open>match_array\<close> is the array of a successful match: the matched text, then the
  capture groups in order, \<open>None\<close> for a group that did not take part.
\<close>

fun first_match :: "regex \<Rightarrow> bool \<Rightarrow> string \<Rightarrow> nat list \<Rightarrow> (nat \<times> mstate) option" where
  "first_match r ic s [] = None"
| "first_match r ic s (i # is) =
     (case matcher r ic s (i, []) of [] \<Rightarrow> first_match r ic s is | y # ys \<Rightarrow> Some (i, y))"

definition RegExpBuiltinExec :: "regex \<Rightarrow> bool \<Rightarrow> string \<Rightarrow> nat \<Rightarrow> (nat \<times> mstate) option" where
  "RegExpBuiltinExec r ic s lastIndex = first_match r ic s [lastIndex ..< Suc (length s)]"

definition match_array :: "regex \<Rightarrow> string \<Rightarrow> nat \<times> mstate \<Rightarrow> string option list" where
  "match_array r s m =
     Some (substring s (fst m) (fst (snd m)))
     # map (\<lambda>n. map_option (\<lambda>(b, e). substring s b e) (map_of (snd (snd m)) n))
           (sort (group_numbers r))"

text \<open>
  \<open>regexp.test(s)\<close> for a regular expression with the \<open>g\<close> flag reads and writes
  \<open>regexp.lastIndex\<close>: the search starts there, a match leaves it at the end of the match
  and a failure resets it to 0. \<open>test_global\<close> takes \<open>lastIndex\<close> and returns the new one
  with the result. \<open>test\<close> and \<open>match\<close> are \<open>regexp.test(s)\<close> and \<open>s.match(regexp)\<close> for a
  regular expression without that flag, which always searches from index 0.
\<close>

definition test_global :: "regex \<Rightarrow> string \<Rightarrow> nat \<Rightarrow> bool \<times> nat" where
  "test_global r s lastIndex =
     (case RegExpBuiltinExec r False s lastIndex of
        None \<Rightarrow> (False, 0)
      | Some m \<Rightarrow> (True, fst (snd m)))"

definition test :: "regex \<Rightarrow> bool \<Rightarrow> string \<Rightarrow> bool" where
  "test r ic s = (RegExpBuiltinExec r ic s 0 \<noteq> None)"

definition match :: "regex \<Rightarrow> bool \<Rightarrow> string \<Rightarrow> string option list option" where
  "match r ic s = map_option (match_array r s) (RegExpBuiltinExec r ic s 0)"

text \<open>
  A replacement string is a list of literal text and \<open>$n\<close> references. \<open>replace\<close> is
  \<open>s.replace(regexp, template)\<close> without the \<open>g\<close> flag (the first match only),
  \<open>replace_global\<close> with it: the string is scanned from left to right, a match is replaced
  and the scan goes on at its end; after an empty match the next character is copied.
  \<open>split\<close> is \<open>s.split(regexp)\<close>: the pieces between the matches, the empty ones included,
  each followed by the captures of the separator that ends it.
\<close>

datatype replacement = Text string | Capture nat

definition GetSubstitution :: "replacement list \<Rightarrow> string option list \<Rightarrow> string" where
  "GetSubstitution template groups =
     concat (map (\<lambda>p. case p of
                    Text t \<Rightarrow> t
                  | Capture n \<Rightarrow> (if n < length groups
                                  then (case groups ! n of Some t \<Rightarrow> t | None \<Rightarrow> [])
                                  else CHR ''$'' # take 1 (drop n digit_chars)))
                 template)"

definition replace :: "regex \<Rightarrow> bool \<Rightarrow> replacement list \<Rightarrow> string \<Rightarrow> string" where
  "replace r ic template s =
     (case RegExpBuiltinExec r ic s 0 of
        None \<Rightarrow> s
      | Some m \<Rightarrow> take (fst m) s @ GetSubstitution template (match_array r s m) @ drop (fst (snd m)) s)"

fun replace_scan :: "regex \<Rightarrow> replacement list \<Rightarrow> string \<Rightarrow> nat list \<Rightarrow> nat \<Rightarrow> string" where
  "replace_scan r template s [] nextIndex = []"
| "replace_scan r template s (i # is) nextIndex =
     (if i < nextIndex then replace_scan r template s is nextIndex
      else case matcher r False s (i, []) of
        [] \<Rightarrow> take 1 (drop i s) @ replace_scan r template s is nextIndex
      | y # ys \<Rightarrow>
          GetSubstitution template (match_array r s (i, y))
          @ (if fst y = i then take 1 (drop i s) else [])
          @ replace_scan r template s is (fst y))"

definition replace_global :: "regex \<Rightarrow> replacement list \<Rightarrow> string \<Rightarrow> string" where
  "replace_global r template s = replace_scan r template s [0 ..< Suc (length s)] 0"

fun split_scan :: "regex \<Rightarrow> string \<Rightarrow> nat list \<Rightarrow> nat \<Rightarrow> string option list" where
  "split_scan r s [] p = [Some (drop p s)]"
| "split_scan r s (q # qs) p =
     (if q < p then split_scan r s qs p
      else case matcher r False s (q, []) of
        [] \<Rightarrow> split_scan r s qs p
      | y # ys \<Rightarrow>
          (if min (fst y) (length s) = p then split_scan r s qs p
           else Some (substring s p q) # tl (match_array r s (q, y))
                @ split_scan r s qs (min (fst y) (length s))))"

definition split :: "regex \<Rightarrow> string \<Rightarrow> string option list" where
  "split r s =
     (if s = [] then (if matcher r False s (0, []) = [] then [Some s] else [])
      else split_scan r s [0 ..< length s] 0)"

definition lit :: "string \<Rightarrow> regex" where
  "lit s = foldr (\<lambda>c r. Seq (Class [c]) r) s Empty"

section \<open>The JavaScript runtime: objects as dictionaries\<close>

text \<open>
  A plain object \<open>{}\<close> used as a dictionary is the list of its own entries in the order of
  their creation. Reading a key that the object does not own finds \<open>undefined\<close>, except for
  the names of the members every object inherits from \<open>Object.prototype\<close>: there JavaScript
  finds a function (for \<open>__proto__\<close> the prototype object), which is truthy, and an
  assignment to \<open>__proto__\<close> of a value that is not an object changes nothing.

  \<open>Object.keys\<close> lists the keys that are array indices first, in ascending numeric order,
  then the others in the order of their creation; \<open>Object_entries\<close> is that order on the
  entries.

  \<open>count_up k dic\<close> is the statement \<open>dic[k] = count ? ++count : 1\<close> after
  \<open>var count = dic[k]\<close>. The counters are numbers: \<open>++count\<close> on an inherited function or
  object is \<open>NaN\<close>, which the statement stores and which the next reading finds falsy.
\<close>

datatype number = Number rat | Infinity | NaN

definition truthy_number :: "number \<Rightarrow> bool" where
  "truthy_number v = (case v of Number q \<Rightarrow> q \<noteq> 0 | Infinity \<Rightarrow> True | NaN \<Rightarrow> False)"

definition increment :: "number \<Rightarrow> number" where
  "increment v = (case v of Number q \<Rightarrow> Number (q + 1) | Infinity \<Rightarrow> Infinity | NaN \<Rightarrow> NaN)"

type_synonym dict = "(string \<times> number) list"

definition Object_prototype_keys :: "string list" where
  "Object_prototype_keys =
     [''constructor'', ''__defineGetter__'', ''__defineSetter__'', ''hasOwnProperty'',
      ''__lookupGetter__'', ''__lookupSetter__'', ''isPrototypeOf'', ''propertyIsEnumerable'',
      ''toString'', ''valueOf'', ''__proto__'', ''toLocaleString'']"

definition digit_value :: "char \<Rightarrow> int" where
  "digit_value c = (case map_of (zip digit_chars [0, 1, 2, 3, 4, 5, 6, 7, 8, 9]) c of Some d \<Rightarrow> d | None \<Rightarrow> 0)"

definition ToNumber_digits :: "string \<Rightarrow> int" where
  "ToNumber_digits s = foldl (\<lambda>n c. 10 * n + digit_value c) 0 s"

definition array_index :: "string \<Rightarrow> bool" where
  "array_index k =
     (k \<noteq> [] \<and> set k \<subseteq> set digit_chars \<and> (k = ''0'' \<or> take 1 k \<noteq> ''0'')
      \<and> (length k < 10 \<or> (length k = 10 \<and> k < ''4294967295'')))"

definition Object_entries :: "(string \<times> 'v) list \<Rightarrow> (string \<times> 'v) list" where
  "Object_entries obj =
     sort_key (\<lambda>p. ToNumber_digits (fst p)) (filter (\<lambda>p. array_index (fst p)) obj)
     @ filter (\<lambda>p. \<not> array_index (fst p)) obj"

definition count_up :: "string \<Rightarrow> dict \<Rightarrow> dict" where
  "count_up k dic =
     (case map_of dic k of
        Some v \<Rightarrow> AList.update k (if truthy_number v then increment v else Number 1) dic
      | None \<Rightarrow>
          if k = ''__proto__'' then dic
          else if k \<in> set Object_prototype_keys then AList.update k NaN dic
          else AList.update k (Number 1) dic)"

section \<open>The underscore library\<close>

text \<open>
  \<open>_.uniq\<close> keeps the first occurrence of every element. \<open>_.sortBy\<close> sorts the elements by
  the criterion the iteratee computes, with the comparator of the library: different
  criteria are compared with \<open><\<close> and \<open>>\<close>, and elements whose criteria are equal or not
  comparable (\<open>NaN\<close>, here \<open>None\<close>) keep their order. Strings compare lexicographically by
  character code. With a \<open>NaN\<close> criterion the comparator is not consistent and the order of
  the result is left to the engine's \<open>sort\<close>; the insertion sort of this model gives one
  such order. Only the font sizes have a computed criterion.
\<close>

definition uniq :: "'a list \<Rightarrow> 'a list" where
  "uniq xs = fold (\<lambda>x seen. if x \<in> set seen then seen else seen @ [x]) xs []"

definition sortBy_compare :: "('c::linorder) option \<times> nat \<Rightarrow> 'c option \<times> nat \<Rightarrow> int" where
  "sortBy_compare left right =
     (case (fst left, fst right) of
        (Some a, Some b) \<Rightarrow>
          if a \<noteq> b then (if a > b then 1 else - 1) else int (snd left) - int (snd right)
      | _ \<Rightarrow> int (snd left) - int (snd right))"

definition sortBy :: "('a \<Rightarrow> ('c::linorder) option) \<Rightarrow> 'a list \<Rightarrow> 'a list" where
  "sortBy iteratee xs =
     map fst (Array_sort (\<lambda>l r. sortBy_compare (iteratee (fst l), snd l) (iteratee (fst r), snd r))
                (zip xs [0 ..< length xs]))"

section \<open>Options and collaborators\<close>

text \<open>
  The options the analyzer reads. A flag is a boolean, \<open>mostIdentifierCount\<close> and
  \<open>propertiesCount\<close> are natural numbers (0 is falsy), \<open>javascriptSpecificSelectors\<close> is an
  optional pattern string, \<open>namedColors\<close> a list of colour names.
\<close>

record options =
  opt_size :: bool
  opt_dataUriSize :: bool
  opt_ratioOfDataUriSize :: bool
  opt_gzippedSize :: bool
  opt_rules :: bool
  opt_selectors :: bool
  opt_simplicity :: bool
  opt_mostIdentifier :: bool
  opt_mostIdentifierSelector :: bool
  opt_mostIdentifierCount :: nat
  opt_lowestCohesion :: bool
  opt_lowestCohesionSelector :: bool
  opt_totalUniqueFontSizes :: bool
  opt_uniqueFontSize :: bool
  opt_uniqueFontSizeDic :: bool
  opt_totalUniqueFontFamilies :: bool
  opt_uniqueFontFamily :: bool
  opt_uniqueFontFamilyDic :: bool
  opt_totalUniqueColors :: bool
  opt_uniqueColor :: bool
  opt_uniqueColorDic :: bool
  opt_idSelectors :: bool
  opt_universalSelectors :: bool
  opt_unqualifiedAttributeSelectors :: bool
  opt_attributeSelectors :: bool
  opt_elementSelectors :: bool
  opt_classSelectors :: bool
  opt_javascriptSpecificSelectors :: "string option"
  opt_importantKeywords :: bool
  opt_floatProperties :: bool
  opt_propertiesCount :: nat
  opt_sourceMap :: bool
  opt_namedColors :: "string list"

text \<open>
  A node of the chain the selector parser returns (\<open>ps.rule\<close>, \<open>rule.rule\<close>, ...); of
  \<open>attrs\<close> only the length is read. The parser returns the chain as a list, the empty list
  when the parse result has no \<open>rule\<close>.
\<close>

record selector_node =
  node_id :: "string option"
  classNames :: "string list option"
  tagName :: "string option"
  attrs :: "string list option"

record runtime =
  RegExp :: "string \<Rightarrow> error + regex"
  parse :: "string \<Rightarrow> error + selector_node list"
  gzipSize_sync :: "string \<Rightarrow> error + nat"

text \<open>
  The truthiness of an optional string, and the pattern \<open>new RegExp\<close> compiles for it: an
  \<open>undefined\<close> pattern is the empty pattern.
\<close>

definition truthy :: "string option \<Rightarrow> bool" where
  "truthy v = (case v of None \<Rightarrow> False | Some s \<Rightarrow> s \<noteq> [])"

definition pattern_text :: "string option \<Rightarrow> string" where
  "pattern_text v = (case v of None \<Rightarrow> [] | Some p \<Rightarrow> p)"

section \<open>analyzeRules\<close>

text \<open>
  The callback of \<open>this.rules.forEach\<close>: a rule whose \<open>declarations\<close> is an array pushes
  \<open>{selector: rule.selectors, count: rule.declarations.length}\<close>.
\<close>

definition analyzeRule :: "css_rule \<Rightarrow> string list selector_count list \<Rightarrow> string list selector_count list" where
  "analyzeRule rule cssDeclarations =
     (case rule_declarations rule of
        Some ds \<Rightarrow> cssDeclarations @ [\<lparr>count = length ds, selector = rule_selectors rule\<rparr>]
      | None \<Rightarrow> cssDeclarations)"

definition analyzeRules :: "css_rule list \<Rightarrow> string list selector_count list" where
  "analyzeRules rules = Array_sort decreasingOrder (fold analyzeRule rules [])"

section \<open>analyzeSelectors\<close>

text \<open>
  \<open>walk_rule\<close> is the body of the \<open>while (rule)\<close> loop, \<open>analyzeSelector\<close> the callback of
  \<open>this.selectors.forEach\<close>. Its state is the \<open>result\<close> object and the \<open>lastIndex\<close> of the
  one \<open>regexp\<close> object that all iterations share. \<open>chain_length\<close> is the \<open>count\<close> the
  callback computes from its three regular expressions
  \<open>/\s?([\>|\+|\~])\s?/g\<close>, \<open>/\s+/g\<close> and \<open>/\s|\>|\+|\~/\<close>.
\<close>

record selector_flags =
  hasClass :: bool
  hasTag :: bool
  hasId :: bool
  hasAttr :: bool
  hasUnqAttr :: bool
  hasUniversal :: bool

record selectorAnalysis =
  idSelectors :: nat
  universalSelectors :: nat
  attributeSelectors :: nat
  unqualifiedAttributeSelectors :: nat
  javascriptSpecificSelectors :: nat
  elementSelectors :: nat
  classSelectors :: nat
  identifiers :: "string selector_count list"

definition walk_rule :: "selector_node \<Rightarrow> selector_flags \<Rightarrow> selector_flags" where
  "walk_rule rule f =
     (let f = (if truthy (node_id rule) then f\<lparr>hasId := True\<rparr> else f);
          f = (case classNames rule of
                 Some cs \<Rightarrow> if cs \<noteq> [] then f\<lparr>hasClass := True\<rparr> else f
               | None \<Rightarrow> f);
          f = (if truthy (tagName rule)
               then (if tagName rule = Some ''*''
                     then f\<lparr>hasTag := True, hasUniversal := True\<rparr>
                     else f\<lparr>hasTag := True\<rparr>)
               else f);
          f = (case attrs rule of
                 Some as \<Rightarrow>
                   if as \<noteq> []
                   then (if \<not> truthy (tagName rule) \<and> \<not> truthy (node_id rule) \<and> classNames rule = None
                         then f\<lparr>hasAttr := True, hasUnqAttr := True\<rparr>
                         else f\<lparr>hasAttr := True\<rparr>)
                   else f
               | None \<Rightarrow> f)
      in f)"

definition combinator_spaces :: regex where
  "combinator_spaces =
     Seq (Repeat 0 (Some 1) (Class whitespace))
       (Seq (Group 1 (Class ''>|+~'')) (Repeat 0 (Some 1) (Class whitespace)))"

definition whitespace_run :: regex where
  "whitespace_run = Repeat 1 None (Class whitespace)"

definition chain_separator :: regex where
  "chain_separator = Alt (Class whitespace) (Alt (Class ''>'') (Alt (Class ''+'') (Class ''~'')))"

definition chain_length :: "string \<Rightarrow> nat" where
  "chain_length sel =
     (let trimmedSelector = replace_global combinator_spaces [Capture 1] sel;
          trimmedSelector = replace_global whitespace_run [Text '' ''] trimmedSelector
      in length (split chain_separator trimmedSelector))"

definition bump :: "bool \<Rightarrow> nat \<Rightarrow> nat" where
  "bump flag n = (if flag then n + 1 else n)"

definition analyzeSelector ::
  "runtime \<Rightarrow> regex \<Rightarrow> string \<Rightarrow> selectorAnalysis \<times> nat \<Rightarrow> error + selectorAnalysis \<times> nat" where
  "analyzeSelector rt regexp sel st =
     (case parse rt sel of
        Inl e \<Rightarrow> Inl e
      | Inr chain \<Rightarrow>
          (let result = fst st;
               f = fold walk_rule chain
                     \<lparr>hasClass = False, hasTag = False, hasId = False, hasAttr = False,
                      hasUnqAttr = False, hasUniversal = False\<rparr>;
               t = test_global regexp (trim sel) (snd st)
           in Inr (\<lparr>idSelectors = bump (hasId f) (idSelectors result),
                    universalSelectors = bump (hasUniversal f) (universalSelectors result),
                    attributeSelectors = bump (hasAttr f) (attributeSelectors result),
                    unqualifiedAttributeSelectors =
                      bump (hasUnqAttr f) (unqualifiedAttributeSelectors result),
                    javascriptSpecificSelectors = bump (fst t) (javascriptSpecificSelectors result),
                    elementSelectors = bump (hasTag f) (elementSelectors result),
                    classSelectors = bump (hasClass f) (classSelectors result),
                    identifiers = identifiers result
                      @ [\<lparr>count = chain_length sel, selector = sel\<rparr>]\<rparr>,
                   snd t)))"

definition analyzeSelectors :: "runtime \<Rightarrow> string list \<Rightarrow> options \<Rightarrow> error + selectorAnalysis" where
  "analyzeSelectors rt selectors opts =
     (case RegExp rt (pattern_text (opt_javascriptSpecificSelectors opts)) of
        Inl e \<Rightarrow> Inl e
      | Inr regexp \<Rightarrow>
          (case forEach (analyzeSelector rt regexp) selectors
                  (\<lparr>idSelectors = 0, universalSelectors = 0, attributeSelectors = 0,
                    unqualifiedAttributeSelectors = 0, javascriptSpecificSelectors = 0,
                    elementSelectors = 0, classSelectors = 0, identifiers = []\<rparr>, 0) of
             Inl e \<Rightarrow> Inl e
           | Inr st \<Rightarrow>
               Inr ((fst st)\<lparr>identifiers := Array_sort decreasingOrder (identifiers (fst st))\<rparr>)))"

section \<open>The colour normalizer\<close>

text \<open>
  \<open>rgbToHex\<close> receives the three captured digit strings; \<open>toString16\<close> is
  \<open>Number.prototype.toString(16)\<close> on a non-negative integer. \<open>extractColor\<close> and the
  body of the \<open>colors.forEach\<close> callback of \<open>addColor\<close> (\<open>normalize_color\<close>) use the
  regular expressions of the source: \<open>rgbRegex\<close>, \<open>hexColorRegex\<close>, \<open>gradientRegex\<close>,
  \<open>colorPropertyRegex\<close>, \<open>/\!important/\<close>, \<open>/^#([0-9A-F]){3}$/\<close> and
  \<open>/^#(\w)(\w)(\w)$/\<close>. \<open>namedColors_pattern\<close> is the pattern text the source builds for
  \<open>namedColorsRegex\<close>, which the runtime compiles with the \<open>i\<close> flag.
\<close>

function toString16 :: "int \<Rightarrow> string" where
  "toString16 n =
     (if n < 16 then take 1 (drop (nat n) ''0123456789abcdef'')
      else toString16 (n div 16) @ take 1 (drop (nat (n mod 16)) ''0123456789abcdef''))"
  by pat_completeness auto
termination
  by (relation "measure nat") auto

declare toString16.simps [simp del]

definition rgbToHex :: "string \<Rightarrow> string \<Rightarrow> string \<Rightarrow> string" where
  "rgbToHex r g b =
     ''#'' @ drop 1 (toString16 (2 ^ 24 + ToNumber_digits r * 2 ^ 16 + ToNumber_digits g * 2 ^ 8
                               + ToNumber_digits b))"

definition star :: "regex \<Rightarrow> regex" where
  "star r = Repeat 0 None r"

definition rgbRegex :: regex where
  "rgbRegex =
     foldr Seq
       [lit ''rgb'', star (Class ''a''), Class ''('', star (Class whitespace),
        Group 1 (Repeat 1 (Some 3) (Class digit_chars)), star (Class whitespace), Class '','',
        star (Class whitespace),
        Group 2 (Repeat 1 (Some 3) (Class digit_chars)), star (Class whitespace), Class '','',
        star (Class whitespace),
        Group 3 (Repeat 1 (Some 3) (Class digit_chars)), star (Class whitespace), Class '','',
        star (Class whitespace), star (Not_class [CHR 0x0A, CHR 0x0D]), Class '')'']
       Empty"

definition hexColorRegex :: regex where
  "hexColorRegex = Seq (Class ''#'') (Group 1 (star (Class word_chars)))"

definition gradientRegex :: regex where
  "gradientRegex = lit ''gradient''"

definition colorPropertyRegex :: regex where
  "colorPropertyRegex =
     Alt (Seq Bol (Seq (lit ''color'') Eol))
       (Alt (Seq Bol (Seq (lit ''background'') Eol))
         (Alt (Seq Bol (Seq (lit ''background-color'') Eol))
           (Seq Bol (lit ''border''))))"

fun join :: "string \<Rightarrow> string list \<Rightarrow> string" where
  "join sep [] = []"
| "join sep [x] = x"
| "join sep (x # y # ys) = x @ sep @ join sep (y # ys)"

definition namedColors_pattern :: "string list \<Rightarrow> string" where
  "namedColors_pattern namedColors =
     join ''|''
       (map (\<lambda>nc. CHR 0x5C # ''W('' @ nc @ '')'' @ CHR 0x5C # ''b|^('' @ nc @ '')'' @ CHR 0x5C # ''b'')
            namedColors)"

definition group_text :: "string option list \<Rightarrow> nat \<Rightarrow> string" where
  "group_text m n = (case drop n m of Some t # rest \<Rightarrow> t | _ \<Rightarrow> ''undefined'')"

definition extractColor :: "regex \<Rightarrow> string \<Rightarrow> string list option" where
  "extractColor namedColorsRegex v =
     (if match gradientRegex False v \<noteq> None then None
      else case match rgbRegex False v of
        Some rgb \<Rightarrow> Some [rgbToHex (group_text rgb 1) (group_text rgb 2) (group_text rgb 3)]
      | None \<Rightarrow>
          (case match hexColorRegex False v of
             Some hexColor \<Rightarrow> Some [''#'' @ group_text hexColor 1]
           | None \<Rightarrow>
               (case match namedColorsRegex True v of
                  Some namedColor \<Rightarrow>
                    Some (concat (map (\<lambda>nc. case nc of Some t \<Rightarrow> (if t \<noteq> [] then [t] else [])
                                                | None \<Rightarrow> [])
                                     (drop 1 namedColor)))
                | None \<Rightarrow> None)))"

definition important :: regex where
  "important = lit ''!important''"

definition hex3 :: regex where
  "hex3 = foldr Seq [Bol, Class ''#'', Repeat 3 (Some 3) (Group 1 (Class (digit_chars @ ''ABCDEF''))), Eol] Empty"

definition hex3_digits :: regex where
  "hex3_digits =
     foldr Seq [Bol, Class ''#'', Group 1 (Class word_chars), Group 2 (Class word_chars),
                Group 3 (Class word_chars), Eol] Empty"

definition normalize_color :: "string \<Rightarrow> string" where
  "normalize_color c =
     (let color = replace important False [] c;
          color = trim (toUpperCase color)
      in if test hex3 False color
         then replace hex3_digits False
                [Text ''#'', Capture 1, Capture 1, Capture 2, Capture 2, Capture 3, Capture 3] color
         else color)"

section \<open>analyzeDeclarations\<close>

text \<open>
  The \<open>result\<close> object of \<open>analyzeDeclarations\<close> holds a string in \<open>dataUriSize\<close> and a
  dictionary in \<open>properties\<close> during the pass, and a number and a sorted list when the
  function returns: the record is polymorphic in these two fields. The pass also updates
  the local \<open>unhandledColors\<close> and \<open>this.sourceMap.values\<close>. The source map is modelled by
  its \<open>values\<close> and is returned with the result.

  The callback \<open>analyzeDeclaration\<close> is the sequence of the blocks of its body, one
  function each, in the order of the source. Only \<open>addToSourceMap\<close> can throw: when the
  item is not a key of its group but the name of an inherited member, \<open>sources\<close> is a
  function or the prototype object and \<open>sources.indexOf\<close> is not a function.

  \<open>property_step\<close> is the property statistics. The value read under the property name is
  truthy for a count, for a string and for an inherited member. \<open>+= 1\<close> adds one to a count
  and appends \<open>"1"\<close> to a string; applied to an inherited function it builds the string of
  the function's text (\<open>inherited_member_text\<close>, as V8 prints a native function) followed
  by \<open>"1"\<close>, and applied to \<open>__proto__\<close> its assignment is ignored.
\<close>

type_synonym source_map = "(string \<times> (string \<times> nat list) list) list"

type_synonym property_dict = "(string \<times> count_value) list"

record ('d, 'p) declarationAnalysis =
  dataUriSize :: 'd
  importantKeywords :: nat
  floatProperties :: nat
  uniqueFontSize :: "string list"
  uniqueFontSizeDic :: dict
  uniqueFontFamily :: "string list"
  uniqueFontFamilyDic :: dict
  uniqueColor :: "string list"
  uniqueColorDic :: dict
  properties :: 'p

record declaration_pass =
  result :: "(string, property_dict) declarationAnalysis"
  unhandledColors :: dict
  sourceMap_values :: source_map

definition addToSourceMap :: "string \<Rightarrow> string \<Rightarrow> nat \<Rightarrow> source_map \<Rightarrow> error + source_map" where
  "addToSourceMap groupName item src vals =
     (let group = (case map_of vals groupName of None \<Rightarrow> [] | Some g \<Rightarrow> g) in
      case map_of group item of
        None \<Rightarrow>
          if item \<in> set Object_prototype_keys then Inl TypeError
          else Inr (AList.update groupName (AList.update item [src] group) vals)
      | Some sources \<Rightarrow>
          Inr (AList.update groupName
                 (AList.update item (if src \<in> set sources then sources else sources @ [src]) group)
                 vals))"

definition dataUriRegex :: regex where
  "dataUriRegex =
     Seq (lit ''data:image/'')
       (Repeat 1 None (Class (upper_chars @ lower_chars @ digit_chars @ '';,+=/'')))"

definition dataUri_step :: "css_declaration \<Rightarrow> declaration_pass \<Rightarrow> declaration_pass" where
  "dataUri_step declaration st =
     (if contains ''data:image'' (decl_value declaration)
      then st\<lparr>result := (result st)\<lparr>dataUriSize :=
             dataUriSize (result st)
             @ (case match dataUriRegex False (decl_value declaration) of
                  Some m \<Rightarrow> group_text m 0
                | None \<Rightarrow> ''null'')\<rparr>\<rparr>
      else st)"

definition important_step :: "css_declaration \<Rightarrow> declaration_pass \<Rightarrow> declaration_pass" where
  "important_step declaration st =
     (if contains ''!important'' (decl_value declaration)
      then st\<lparr>result := (result st)\<lparr>importantKeywords := importantKeywords (result st) + 1\<rparr>\<rparr>
      else st)"

definition float_step :: "css_declaration \<Rightarrow> declaration_pass \<Rightarrow> declaration_pass" where
  "float_step declaration st =
     (if contains ''float'' (decl_property declaration)
      then st\<lparr>result := (result st)\<lparr>floatProperties := floatProperties (result st) + 1\<rparr>\<rparr>
      else st)"

definition fontFamily_step :: "css_declaration \<Rightarrow> declaration_pass \<Rightarrow> error + declaration_pass" where
  "fontFamily_step declaration st =
     (if contains ''font-family'' (decl_property declaration)
      then (let fFamily = trim (replace_global (Group 1 important) [] (decl_value declaration));
                dic = count_up fFamily (uniqueFontFamilyDic (result st))
            in case addToSourceMap ''font-family'' fFamily (decl_source declaration)
                      (sourceMap_values st) of
                 Inl e \<Rightarrow> Inl e
               | Inr vals \<Rightarrow>
                   Inr (st\<lparr>result := (result st)\<lparr>uniqueFontFamilyDic := dic,
                              uniqueFontFamily := uniqueFontFamily (result st) @ [fFamily]\<rparr>,
                           sourceMap_values := vals\<rparr>))
      else Inr st)"

definition fontSize_step :: "css_declaration \<Rightarrow> declaration_pass \<Rightarrow> error + declaration_pass" where
  "fontSize_step declaration st =
     (if contains ''font-size'' (decl_property declaration)
      then (let fSize = trim (replace important False [] (decl_value declaration));
                dic = count_up fSize (uniqueFontSizeDic (result st))
            in case addToSourceMap ''font-size'' fSize (decl_source declaration)
                      (sourceMap_values st) of
                 Inl e \<Rightarrow> Inl e
               | Inr vals \<Rightarrow>
                   Inr (st\<lparr>result := (result st)\<lparr>uniqueFontSizeDic := dic,
                              uniqueFontSize := uniqueFontSize (result st) @ [fSize]\<rparr>,
                           sourceMap_values := vals\<rparr>))
      else Inr st)"

definition addColor_each ::
  "string \<Rightarrow> string list \<times> declaration_pass \<Rightarrow> error + string list \<times> declaration_pass" where
  "addColor_each c acc =
     (let resultColors = fst acc; st = snd acc; color = normalize_color c in
      if color \<noteq> ''TRANSPARENT'' \<and> color \<noteq> ''INHERIT''
      then Inr (resultColors @ [color],
                st\<lparr>result := (result st)\<lparr>uniqueColorDic := count_up color (uniqueColorDic (result st)),
                       uniqueColor := uniqueColor (result st) @ [color]\<rparr>\<rparr>)
      else Inr acc)"

definition addColor ::
  "string list option \<Rightarrow> declaration_pass \<Rightarrow> error + string list \<times> declaration_pass" where
  "addColor colors st =
     (case colors of
        None \<Rightarrow> Inr ([], st)
      | Some cs \<Rightarrow> forEach addColor_each cs ([], st))"

definition color_step ::
  "regex \<Rightarrow> css_declaration \<Rightarrow> declaration_pass \<Rightarrow> error + declaration_pass" where
  "color_step namedColorsRegex declaration st =
     (if match colorPropertyRegex False (decl_property declaration) \<noteq> None
      then (case addColor (extractColor namedColorsRegex (decl_value declaration)) st of
              Inl e \<Rightarrow> Inl e
            | Inr added \<Rightarrow>
                (let addedColors = fst added; st = snd added in
                 if addedColors = []
                 then Inr (st\<lparr>unhandledColors :=
                             count_up (decl_value declaration) (unhandledColors st)\<rparr>)
                 else (case forEach (\<lambda>c. addToSourceMap ''color'' c (decl_source declaration))
                              addedColors (sourceMap_values st) of
                         Inl e \<Rightarrow> Inl e
                       | Inr vals \<Rightarrow> Inr (st\<lparr>sourceMap_values := vals\<rparr>))))
      else Inr st)"

definition inherited_member_text :: "string \<Rightarrow> string" where
  "inherited_member_text p =
     ''function '' @ (if p = ''constructor'' then ''Object'' else p) @ ''() { [native code] }''"

definition property_step :: "css_declaration \<Rightarrow> declaration_pass \<Rightarrow> declaration_pass" where
  "property_step declaration st =
     (let props = properties (result st); p = decl_property declaration in
      case map_of props p of
        Some (Num n) \<Rightarrow>
          if n \<noteq> 0
          then st\<lparr>result := (result st)\<lparr>properties := AList.update p (Num (n + 1)) props\<rparr>\<rparr>
          else st\<lparr>result := (result st)\<lparr>properties := AList.update p (Num 1) props\<rparr>\<rparr>
      | Some (Str s) \<Rightarrow>
          if s \<noteq> []
          then st\<lparr>result := (result st)\<lparr>properties := AList.update p (Str (s @ ''1'')) props\<rparr>\<rparr>
          else st\<lparr>result := (result st)\<lparr>properties := AList.update p (Num 1) props\<rparr>\<rparr>
      | None \<Rightarrow>
          if p = ''__proto__'' then st
          else if p \<in> set Object_prototype_keys
          then st\<lparr>result := (result st)\<lparr>properties :=
                 AList.update p (Str (inherited_member_text p @ ''1'')) props\<rparr>\<rparr>
          else st\<lparr>result := (result st)\<lparr>properties := AList.update p (Num 1) props\<rparr>\<rparr>)"

definition analyzeDeclaration ::
  "regex \<Rightarrow> css_declaration \<Rightarrow> declaration_pass \<Rightarrow> error + declaration_pass" where
  "analyzeDeclaration namedColorsRegex declaration st =
     (case fontFamily_step declaration
             (float_step declaration (important_step declaration (dataUri_step declaration st))) of
        Inl e \<Rightarrow> Inl e
      | Inr st \<Rightarrow>
          (case fontSize_step declaration st of
             Inl e \<Rightarrow> Inl e
           | Inr st \<Rightarrow>
               (case color_step namedColorsRegex declaration st of
                  Inl e \<Rightarrow> Inl e
                | Inr st \<Rightarrow> Inr (property_step declaration st))))"

text \<open>
  The sort criterion of the font sizes is \<open>item.replace(/[^0-9\.]/g, '') - 0\<close>: the number
  a string of digits and dots denotes, \<open>NaN\<close> for a string with two dots or a lone dot.
  The criterion is the exact rational; JavaScript compares the doubles nearest to them, so
  two criteria that round to one double are ordered here and tied there.
\<close>

definition not_numeric :: regex where
  "not_numeric = Not_class (digit_chars @ ''.'')"

definition ToNumber :: "string \<Rightarrow> rat option" where
  "ToNumber t =
     (let whole = takeWhile (\<lambda>c. c \<noteq> CHR ''.'') t; rest = dropWhile (\<lambda>c. c \<noteq> CHR ''.'') t in
      if rest = [] then Some (of_int (ToNumber_digits whole))
      else let fraction = drop 1 rest in
        if CHR ''.'' \<in> set fraction \<or> (whole = [] \<and> fraction = []) then None
        else Some (of_int (ToNumber_digits whole)
                   + of_int (ToNumber_digits fraction) / 10 ^ length fraction))"

definition sortAnalyzeData ::
  "(nat, property_dict) declarationAnalysis \<Rightarrow> (nat, property_count list) declarationAnalysis" where
  "sortAnalyzeData r =
     \<lparr>dataUriSize = dataUriSize r,
      importantKeywords = importantKeywords r,
      floatProperties = floatProperties r,
      uniqueFontSize =
        sortBy (\<lambda>item. ToNumber (replace_global not_numeric [] item)) (uniq (uniqueFontSize r)),
      uniqueFontSizeDic = uniqueFontSizeDic r,
      uniqueFontFamily = sortBy Some (uniq (uniqueFontFamily r)),
      uniqueFontFamilyDic = uniqueFontFamilyDic r,
      uniqueColor = sortBy Some (uniq (uniqueColor r)),
      uniqueColorDic = uniqueColorDic r,
      properties =
        Array_sort decreasingOrder_properties
          (fold (\<lambda>entry propertiesCount. propertiesCount @ [\<lparr>count = snd entry, property = fst entry\<rparr>])
             (Object_entries (properties r)) [])\<rparr>"

definition dataUriSizeToBytes ::
  "(string, property_dict) declarationAnalysis \<Rightarrow> (nat, property_dict) declarationAnalysis" where
  "dataUriSizeToBytes r =
     \<lparr>dataUriSize = length (dataUriSize r),
      importantKeywords = importantKeywords r,
      floatProperties = floatProperties r,
      uniqueFontSize = uniqueFontSize r,
      uniqueFontSizeDic = uniqueFontSizeDic r,
      uniqueFontFamily = uniqueFontFamily r,
      uniqueFontFamilyDic = uniqueFontFamilyDic r,
      uniqueColor = uniqueColor r,
      uniqueColorDic = uniqueColorDic r,
      properties = properties r\<rparr>"

definition initial_pass :: "source_map \<Rightarrow> declaration_pass" where
  "initial_pass sourceMap =
     \<lparr>result = \<lparr>dataUriSize = [], importantKeywords = 0, floatProperties = 0,
                 uniqueFontSize = [], uniqueFontSizeDic = [],
                 uniqueFontFamily = [], uniqueFontFamilyDic = [],
                 uniqueColor = [], uniqueColorDic = [], properties = []\<rparr>,
       unhandledColors = [], sourceMap_values = sourceMap\<rparr>"

definition analyzeDeclarations ::
  "runtime \<Rightarrow> css_declaration list \<Rightarrow> options \<Rightarrow> source_map
     \<Rightarrow> error + (nat, property_count list) declarationAnalysis \<times> source_map" where
  "analyzeDeclarations rt declarations opts sourceMap =
     (case RegExp rt (namedColors_pattern (opt_namedColors opts)) of
        Inl e \<Rightarrow> Inl e
      | Inr namedColorsRegex \<Rightarrow>
          (case forEach (analyzeDeclaration namedColorsRegex) declarations (initial_pass sourceMap) of
             Inl e \<Rightarrow> Inl e
           | Inr st \<Rightarrow>
               Inr (sortAnalyzeData (dataUriSizeToBytes (result st)), sourceMap_values st)))"

section \<open>analyze\<close>

text \<open>
  \<open>analyze\<close> runs the three analyzers, calls the compression function when the option asks
  for it, and assembles the result. A field of the result that is not assigned is
  \<open>None\<close>; \<open>emit_if\<close> is an assignment under an \<open>if\<close>. The slice for
  \<open>mostIdentifierSelector\<close> is read before \<open>shift\<close> removes the head of \<open>identifiers\<close>;
  nothing reads either list after its \<open>shift\<close>.
\<close>

definition divide_numbers :: "nat \<Rightarrow> nat \<Rightarrow> number" where
  "divide_numbers a b =
     (if b \<noteq> 0 then Number (of_nat a / of_nat b) else if a = 0 then NaN else Infinity)"

record analyzer =
  rules :: "css_rule list"
  selectors :: "string list"
  declarations :: "css_declaration list"
  cssString :: string
  cssSize :: nat
  options :: options
  sourceMap :: source_map

record analysis =
  analysis_size :: "nat option"
  analysis_dataUriSize :: "nat option"
  analysis_ratioOfDataUriSize :: "number option"
  analysis_gzippedSize :: "nat option"
  analysis_rules :: "nat option"
  analysis_selectors :: "nat option"
  analysis_simplicity :: "number option"
  analysis_mostIdentifierSelector :: "string list option"
  analysis_mostIdentifier :: "nat option"
  analysis_lowestCohesion :: "nat option"
  analysis_lowestCohesionSelector :: "string list option"
  analysis_totalUniqueFontSizes :: "nat option"
  analysis_uniqueFontSize :: "string list option"
  analysis_uniqueFontSizeDic :: "dict option"
  analysis_totalUniqueFontFamilies :: "nat option"
  analysis_uniqueFontFamily :: "string list option"
  analysis_uniqueFontFamilyDic :: "dict option"
  analysis_totalUniqueColors :: "nat option"
  analysis_uniqueColor :: "string list option"
  analysis_uniqueColorDic :: "dict option"
  analysis_idSelectors :: "nat option"
  analysis_universalSelectors :: "nat option"
  analysis_unqualifiedAttributeSelectors :: "nat option"
  analysis_attributeSelectors :: "nat option"
  analysis_elementSelectors :: "nat option"
  analysis_classSelectors :: "nat option"
  analysis_javascriptSpecificSelectors :: "nat option"
  analysis_importantKeywords :: "nat option"
  analysis_floatProperties :: "nat option"
  analysis_propertiesCount :: "property_count list option"
  analysis_sourceMap :: "source_map option"

definition emit_if :: "bool \<Rightarrow> 'a \<Rightarrow> 'a option" where
  "emit_if enabled v = (if enabled then Some v else None)"

definition shift :: "'a list \<Rightarrow> 'a option \<times> 'a list" where
  "shift xs = (case xs of [] \<Rightarrow> (None, []) | x # rest \<Rightarrow> (Some x, rest))"

definition assemble ::
  "analyzer \<Rightarrow> string list selector_count list \<Rightarrow> selectorAnalysis
     \<Rightarrow> (nat, property_count list) declarationAnalysis \<Rightarrow> source_map \<Rightarrow> nat option \<Rightarrow> analysis" where
  "assemble this ruleAnalysis selectorAnalysis declarationAnalysis sourceMap' gzippedSize =
     (let opts = options this;
          mostIdentifierSelector =
            emit_if (opt_mostIdentifierSelector opts \<and> opt_mostIdentifierCount opts \<noteq> 0)
              (map selector (take (opt_mostIdentifierCount opts) (identifiers selectorAnalysis)));
          mostIdentifier = fst (shift (identifiers selectorAnalysis));
          lowestDefinition = fst (shift ruleAnalysis)
      in
      \<lparr>analysis_size = emit_if (opt_size opts) (cssSize this),
       analysis_dataUriSize = emit_if (opt_dataUriSize opts) (dataUriSize declarationAnalysis),
       analysis_ratioOfDataUriSize =
         emit_if (opt_dataUriSize opts \<and> opt_ratioOfDataUriSize opts
               \<and> dataUriSize declarationAnalysis \<noteq> 0)
           (divide_numbers (dataUriSize declarationAnalysis) (cssSize this)),
       analysis_gzippedSize = gzippedSize,
       analysis_rules = emit_if (opt_rules opts) (length (rules this)),
       analysis_selectors = emit_if (opt_selectors opts) (length (selectors this)),
       analysis_simplicity =
         emit_if (opt_rules opts \<and> opt_selectors opts \<and> opt_simplicity opts)
           (divide_numbers (length (rules this)) (length (selectors this))),
       analysis_mostIdentifierSelector = mostIdentifierSelector,
       analysis_mostIdentifier =
         (case mostIdentifier of
            Some identifier \<Rightarrow> emit_if (opt_mostIdentifier opts) (count identifier)
          | None \<Rightarrow> None),
       analysis_lowestCohesion =
         (case lowestDefinition of
            Some entry \<Rightarrow> emit_if (opt_lowestCohesion opts) (count entry)
          | None \<Rightarrow> None),
       analysis_lowestCohesionSelector =
         (case lowestDefinition of
            Some entry \<Rightarrow> emit_if (opt_lowestCohesionSelector opts) (selector entry)
          | None \<Rightarrow> None),
       analysis_totalUniqueFontSizes =
         emit_if (opt_totalUniqueFontSizes opts) (length (uniqueFontSize declarationAnalysis)),
       analysis_uniqueFontSize = emit_if (opt_uniqueFontSize opts) (uniqueFontSize declarationAnalysis),
       analysis_uniqueFontSizeDic =
         emit_if (opt_uniqueFontSizeDic opts) (uniqueFontSizeDic declarationAnalysis),
       analysis_totalUniqueFontFamilies =
         emit_if (opt_totalUniqueFontFamilies opts) (length (uniqueFontFamily declarationAnalysis)),
       analysis_uniqueFontFamily =
         emit_if (opt_uniqueFontFamily opts) (uniqueFontFamily declarationAnalysis),
       analysis_uniqueFontFamilyDic =
         emit_if (opt_uniqueFontFamilyDic opts) (uniqueFontFamilyDic declarationAnalysis),
       analysis_totalUniqueColors =
         emit_if (opt_totalUniqueColors opts) (length (uniqueColor declarationAnalysis)),
       analysis_uniqueColor = emit_if (opt_uniqueColor opts) (uniqueColor declarationAnalysis),
       analysis_uniqueColorDic = emit_if (opt_uniqueColorDic opts) (uniqueColorDic declarationAnalysis),
       analysis_idSelectors = emit_if (opt_idSelectors opts) (idSelectors selectorAnalysis),
       analysis_universalSelectors =
         emit_if (opt_universalSelectors opts) (universalSelectors selectorAnalysis),
       analysis_unqualifiedAttributeSelectors =
         emit_if (opt_unqualifiedAttributeSelectors opts)
           (unqualifiedAttributeSelectors selectorAnalysis),
       analysis_attributeSelectors =
         emit_if (opt_attributeSelectors opts) (attributeSelectors selectorAnalysis),
       analysis_elementSelectors =
         emit_if (opt_elementSelectors opts) (elementSelectors selectorAnalysis),
       analysis_classSelectors = emit_if (opt_classSelectors opts) (classSelectors selectorAnalysis),
       analysis_javascriptSpecificSelectors =
         emit_if (truthy (opt_javascriptSpecificSelectors opts))
           (javascriptSpecificSelectors selectorAnalysis),
       analysis_importantKeywords =
         emit_if (opt_importantKeywords opts) (importantKeywords declarationAnalysis),
       analysis_floatProperties =
         emit_if (opt_floatProperties opts) (floatProperties declarationAnalysis),
       analysis_propertiesCount =
         emit_if (opt_propertiesCount opts \<noteq> 0)
           (take (opt_propertiesCount opts) (properties declarationAnalysis)),
       analysis_sourceMap = emit_if (opt_sourceMap opts) sourceMap'\<rparr>)"

definition analyze :: "runtime \<Rightarrow> analyzer \<Rightarrow> error + analysis" where
  "analyze rt this =
     (let ruleAnalysis = analyzeRules (rules this) in
      case analyzeSelectors rt (selectors this) (options this) of
        Inl e \<Rightarrow> Inl e
      | Inr selectorAnalysis \<Rightarrow>
          (case analyzeDeclarations rt (declarations this) (options this) (sourceMap this) of
             Inl e \<Rightarrow> Inl e
           | Inr (declarationAnalysis, sourceMap') \<Rightarrow>
               if opt_gzippedSize (options this)
               then (case gzipSize_sync rt (cssString this) of
                       Inl e \<Rightarrow> Inl e
                     | Inr n \<Rightarrow>
                         Inr (assemble this ruleAnalysis selectorAnalysis declarationAnalysis
                                sourceMap' (Some n)))
               else Inr (assemble this ruleAnalysis selectorAnalysis declarationAnalysis
                           sourceMap' None)))"

section \<open>A sample runtime\<close>

text \<open>
  A concrete runtime for the closed examples. \<open>sample_RegExp\<close> compiles the part of the
  pattern syntax made of literal characters, the escapes \<open>\d \D \w \W \s \S \b\<close> and escaped
  syntax characters, \<open>.\<close>, \<open>^\<close>, \<open>$\<close>, alternation, capturing groups and the greedy
  quantifiers \<open>*\<close>, \<open>+\<close>, \<open>?\<close>; any other pattern is \<open>Unmodelled\<close>. \<open>sample_parse\<close>
  parses a selector that is one class, id or type selector. The sample compression function
  returns the length of its input; \<open>failing_gzip\<close> is the same runtime with a compression
  function that throws.
\<close>

type_synonym frame = "nat \<times> regex list \<times> regex list"

definition seq_of :: "regex list \<Rightarrow> regex" where
  "seq_of atoms = foldr Seq atoms Empty"

fun alt_of :: "regex list \<Rightarrow> regex" where
  "alt_of [] = Empty"
| "alt_of [a] = a"
| "alt_of (a # b # bs) = Alt a (alt_of (b # bs))"

definition close_frame :: "frame \<Rightarrow> regex" where
  "close_frame f = alt_of (fst (snd f) @ [seq_of (snd (snd f))])"

fun add_atom :: "regex \<Rightarrow> frame list \<Rightarrow> error + frame list" where
  "add_atom a [] = Inl SyntaxError"
| "add_atom a ((n, alts, atoms) # fs) = Inr ((n, alts, atoms @ [a]) # fs)"

fun quantifiable :: "regex \<Rightarrow> bool" where
  "quantifiable (Repeat lo hi r) = False"
| "quantifiable Bol = False"
| "quantifiable Eol = False"
| "quantifiable Word_boundary = False"
| "quantifiable r = True"

fun quantify :: "nat \<Rightarrow> nat option \<Rightarrow> frame list \<Rightarrow> error + frame list" where
  "quantify lo hi [] = Inl SyntaxError"
| "quantify lo hi ((n, alts, atoms) # fs) =
     (if atoms \<noteq> [] \<and> quantifiable (last atoms)
      then Inr ((n, alts, butlast atoms @ [Repeat lo hi (last atoms)]) # fs)
      else Inl Unmodelled)"

definition syntax_chars :: "char list" where
  "syntax_chars = CHR 0x5C # ''^$.*+?()[]{}|/-''"

definition escape_atom :: "char \<Rightarrow> error + regex" where
  "escape_atom c =
     (if c = CHR ''d'' then Inr (Class digit_chars)
      else if c = CHR ''D'' then Inr (Not_class digit_chars)
      else if c = CHR ''w'' then Inr (Class word_chars)
      else if c = CHR ''W'' then Inr (Not_class word_chars)
      else if c = CHR ''s'' then Inr (Class whitespace)
      else if c = CHR ''S'' then Inr (Not_class whitespace)
      else if c = CHR ''b'' then Inr Word_boundary
      else if c \<in> set syntax_chars then Inr (Class [c])
      else Inl Unmodelled)"

definition with_stack :: "bool \<Rightarrow> nat \<Rightarrow> error + frame list \<Rightarrow> error + frame list \<times> bool \<times> nat" where
  "with_stack esc n r = (case r of Inl e \<Rightarrow> Inl e | Inr st \<Rightarrow> Inr (st, esc, n))"

definition pattern_char :: "char \<Rightarrow> frame list \<times> bool \<times> nat \<Rightarrow> error + frame list \<times> bool \<times> nat" where
  "pattern_char c p =
     (let st = fst p; esc = fst (snd p); n = snd (snd p) in
      if esc then
        (case escape_atom c of Inl e \<Rightarrow> Inl e | Inr a \<Rightarrow> with_stack False n (add_atom a st))
      else if c = CHR 0x5C then Inr (st, True, n)
      else if c = CHR ''('' then Inr ((Suc n, [], []) # st, False, Suc n)
      else if c = CHR '')'' then
        (case st of
           f # g # fs \<Rightarrow> with_stack False n (add_atom (Group (fst f) (close_frame f)) (g # fs))
         | _ \<Rightarrow> Inl SyntaxError)
      else if c = CHR ''|'' then
        (case st of
           f # fs \<Rightarrow> Inr ((fst f, fst (snd f) @ [seq_of (snd (snd f))], []) # fs, False, n)
         | [] \<Rightarrow> Inl SyntaxError)
      else if c = CHR ''*'' then with_stack False n (quantify 0 None st)
      else if c = CHR ''+'' then with_stack False n (quantify 1 None st)
      else if c = CHR ''?'' then with_stack False n (quantify 0 (Some 1) st)
      else if c = CHR ''.'' then with_stack False n (add_atom (Not_class [CHR 0x0A, CHR 0x0D]) st)
      else if c = CHR ''^'' then with_stack False n (add_atom Bol st)
      else if c = CHR ''$'' then with_stack False n (add_atom Eol st)
      else if c \<in> set ''[]{}'' then Inl Unmodelled
      else with_stack False n (add_atom (Class [c]) st))"

definition sample_RegExp :: "string \<Rightarrow> error + regex" where
  "sample_RegExp pattern =
     (case forEach pattern_char pattern ([(0, [], [])], False, 0) of
        Inl e \<Rightarrow> Inl e
      | Inr p \<Rightarrow>
          (if fst (snd p) then Inl SyntaxError
           else case fst p of [f] \<Rightarrow> Inr (close_frame f) | _ \<Rightarrow> Inl SyntaxError))"

definition name_chars :: "char list" where
  "name_chars = word_chars @ ''-''"

definition simple_node :: selector_node where
  "simple_node = \<lparr>node_id = None, classNames = None, tagName = None, attrs = None\<rparr>"

definition sample_parse :: "string \<Rightarrow> error + selector_node list" where
  "sample_parse sel =
     (case trim sel of
        [] \<Rightarrow> Inl ParseError
      | c # cs \<Rightarrow>
          if c = CHR ''.'' \<and> cs \<noteq> [] \<and> set cs \<subseteq> set name_chars
            then Inr [simple_node\<lparr>classNames := Some [cs]\<rparr>]
          else if c = CHR ''#'' \<and> cs \<noteq> [] \<and> set cs \<subseteq> set name_chars
            then Inr [simple_node\<lparr>node_id := Some cs\<rparr>]
          else if set (c # cs) \<subseteq> set name_chars \<or> c # cs = ''*''
            then Inr [simple_node\<lparr>tagName := Some (c # cs)\<rparr>]
          else Inl Unmodelled)"

definition sample_runtime :: runtime where
  "sample_runtime = \<lparr>RegExp = sample_RegExp, parse = sample_parse, gzipSize_sync = (\<lambda>s. Inr (length s))\<rparr>"

definition failing_gzip :: runtime where
  "failing_gzip = sample_runtime\<lparr>gzipSize_sync := (\<lambda>s. Inl CompressionError)\<rparr>"

definition sample_options :: options where
  "sample_options =
     \<lparr>opt_size = True, opt_dataUriSize = True, opt_ratioOfDataUriSize = True,
      opt_gzippedSize = True, opt_rules = True, opt_selectors = True, opt_simplicity = True,
      opt_mostIdentifier = True, opt_mostIdentifierSelector = True, opt_mostIdentifierCount = 2,
      opt_lowestCohesion = True, opt_lowestCohesionSelector = True,
      opt_totalUniqueFontSizes = True, opt_uniqueFontSize = True, opt_uniqueFontSizeDic = True,
      opt_totalUniqueFontFamilies = True, opt_uniqueFontFamily = True,
      opt_uniqueFontFamilyDic = True, opt_totalUniqueColors = True, opt_uniqueColor = True,
      opt_uniqueColorDic = True, opt_idSelectors = True, opt_universalSelectors = True,
      opt_unqualifiedAttributeSelectors = True, opt_attributeSelectors = True,
      opt_elementSelectors = True, opt_classSelectors = True,
      opt_javascriptSpecificSelectors = Some (CHR 0x5C # ''.js-''),
      opt_importantKeywords = True, opt_floatProperties = True, opt_propertiesCount = 1,
      opt_sourceMap = True, opt_namedColors = [''red'', ''transparent'']\<rparr>"

definition sample_declarations :: "css_declaration list" where
  "sample_declarations =
     [\<lparr>decl_property = ''color'', decl_value = ''Red'', decl_source = 1\<rparr>,
      \<lparr>decl_property = ''float'', decl_value = ''left'', decl_source = 1\<rparr>,
      \<lparr>decl_property = ''background'', decl_value = ''url(data:image/png;base64,AAAA)'',
        decl_source = 1\<rparr>,
      \<lparr>decl_property = ''border-color'', decl_value = ''transparent !important'',
        decl_source = 1\<rparr>]"

definition sample_analyzer :: analyzer where
  "sample_analyzer =
     \<lparr>rules = [\<lparr>rule_selectors = [''.js-a'', ''.js-b''],
                rule_declarations = Some sample_declarations\<rparr>],
      selectors = [''.js-a'', ''.js-b''],
      declarations = sample_declarations,
      cssString =
        ''.js-a,.js-b{color:Red;float:left;background:url(data:image/png;base64,AAAA);''
        @ ''border-color:transparent !important}'',
      cssSize = 112,
      options = sample_options,
      sourceMap = []\<rparr>"

text \<open>The analysis this model computes for the sample stylesheet under the sample options.\<close>

definition sample_analysis :: analysis where
  "sample_analysis =
     \<lparr>analysis_size = Some 112, analysis_dataUriSize = Some 26,
      analysis_ratioOfDataUriSize = Some (Number (13 / 56)),
      analysis_gzippedSize = Some 112, analysis_rules = Some 1, analysis_selectors = Some 2,
      analysis_simplicity = Some (Number (1 / 2)),
      analysis_mostIdentifierSelector = Some [''.js-a'', ''.js-b''],
      analysis_mostIdentifier = Some 1, analysis_lowestCohesion = Some 4,
      analysis_lowestCohesionSelector = Some [''.js-a'', ''.js-b''],
      analysis_totalUniqueFontSizes = Some 0, analysis_uniqueFontSize = Some [],
      analysis_uniqueFontSizeDic = Some [], analysis_totalUniqueFontFamilies = Some 0,
      analysis_uniqueFontFamily = Some [], analysis_uniqueFontFamilyDic = Some [],
      analysis_totalUniqueColors = Some 1, analysis_uniqueColor = Some [''RED''],
      analysis_uniqueColorDic = Some [(''RED'', Number 1)], analysis_idSelectors = Some 0,
      analysis_universalSelectors = Some 0, analysis_unqualifiedAttributeSelectors = Some 0,
      analysis_attributeSelectors = Some 0, analysis_elementSelectors = Some 0,
      analysis_classSelectors = Some 2, analysis_javascriptSpecificSelectors = Some 1,
      analysis_importantKeywords = Some 1, analysis_floatProperties = Some 1,
      analysis_propertiesCount = Some [\<lparr>count = Num 1, property = ''color''\<rparr>],
      analysis_sourceMap = Some [(''color'', [(''RED'', [1])])]\<rparr>"

section \<open>The procedures in the words of the specification\<close>

text \<open>
  The chain length as the specification words it: all whitespace around the combinators
  \<open>>\<close>, \<open>+\<close>, \<open>~\<close> is removed, the remaining whitespace runs are collapsed to one space, the
  string is split on whitespace or a combinator, and the tokens (the non-empty pieces) are
  counted. It is compared with \<open>chain_length\<close>, the function of the source.
\<close>

definition chain_length_spec :: "string \<Rightarrow> nat" where
  "chain_length_spec sel =
     (let around = Seq (Repeat 0 None (Class whitespace))
                     (Seq (Group 1 (Class ''>+~'')) (Repeat 0 None (Class whitespace)));
          collapsed = replace_global whitespace_run [Text '' ''] (replace_global around [Capture 1] sel)
      in length (filter (\<lambda>t. t \<noteq> Some []) (split chain_separator collapsed)))"

section \<open>Properties of the runtime model\<close>

lemma mset_insort_cmp: "mset (insort_cmp cmp x xs) = add_mset x (mset xs)"
  by (induction xs) simp_all

lemma mset_Array_sort: "mset (Array_sort cmp xs) = mset xs"
  by (induction xs) (simp_all add: Array_sort_def mset_insort_cmp)

lemma set_Array_sort: "set (Array_sort cmp xs) = set xs"
  using mset_Array_sort [of cmp xs] by (metis set_mset_mset)

lemma length_Array_sort: "length (Array_sort cmp xs) = length xs"
  using mset_Array_sort [of cmp xs] by (metis size_mset)

lemma Array_sort_sort_key:
  assumes "\<And>a b. cmp a b \<le> 0 \<longleftrightarrow> f a \<le> f b"
  shows "Array_sort cmp xs = sort_key f xs"
proof -
  have ins: "insort_cmp cmp x ys = insort_key f x ys" for x ys
    by (induction ys) (simp_all add: assms)
  show ?thesis
    by (induction xs) (simp_all add: Array_sort_def ins sort_key_def)
qed

lemma decreasingOrder_key:
  "decreasingOrder a b \<le> 0 \<longleftrightarrow> - int (count a) \<le> - int (count b)"
  by (simp add: decreasingOrder_def)

lemma sorted_decreasingOrder:
  "sorted_wrt (\<lambda>a b. count b \<le> count a) (Array_sort decreasingOrder xs)"
proof -
  have "sorted (map (\<lambda>e. - int (count e)) (sort_key (\<lambda>e. - int (count e)) xs))"
    by (rule sorted_sort_key)
  then have "sorted_wrt (\<lambda>a b. count b \<le> count a) (sort_key (\<lambda>e. - int (count e)) xs)"
    by (simp add: sorted_wrt_map)
  then show ?thesis
    by (simp add: Array_sort_sort_key [where f = "\<lambda>e. - int (count e)", OF decreasingOrder_key])
qed

text \<open>
  The bound of \<open>RepeatMatcher\<close> is never what ends an iteration: from a state within the
  string, every larger bound gives the same result.
\<close>

lemma RepeatMatcher_advances:
  assumes "advances n m"
  shows "advances n (RepeatMatcher m gs bound lo hi)"
  unfolding advances_def
proof (induction bound arbitrary: lo hi)
  case 0
  then show ?case by simp
next
  case (Suc bound)
  show ?case
  proof (intro allI impI)
    fix x y
    assume y: "y \<in> set (RepeatMatcher m gs (Suc bound) lo hi x)"
    let ?x' = "(fst x, filter (\<lambda>c. fst c \<notin> set gs) (snd x))"
    from y consider "y = x"
      | z where "z \<in> set (m ?x')"
          "y \<in> set (RepeatMatcher m gs bound (lo - 1) (map_option (\<lambda>h. h - 1) hi) z)"
      by (auto simp: Let_def split: if_splits)
    then show "fst x \<le> fst y \<and> (fst x \<le> n \<longrightarrow> fst y \<le> n)"
    proof cases
      case 1
      then show ?thesis by simp
    next
      case 2
      from assms 2(1) have "fst x \<le> fst z \<and> (fst x \<le> n \<longrightarrow> fst z \<le> n)"
        unfolding advances_def by fastforce
      moreover from Suc 2(2) have "fst z \<le> fst y \<and> (fst z \<le> n \<longrightarrow> fst y \<le> n)"
        by blast
      ultimately show ?thesis by auto
    qed
  qed
qed

lemma matcher_advances: "advances (length s) (matcher r ic s)"
proof (induction r)
  case (Seq r1 r2)
  then show ?case unfolding advances_def by (fastforce simp: )
next
  case (Alt r1 r2)
  then show ?case unfolding advances_def by fastforce
next
  case (Repeat lo hi r)
  have "matcher (Repeat lo hi r) ic s
      = RepeatMatcher (matcher r ic s) (group_numbers r) (lo + Suc (length s)) lo hi"
    by (rule ext) (simp del: RepeatMatcher.simps)
  with Repeat show ?case by (simp only: RepeatMatcher_advances)
next
  case (Group n r)
  then show ?case unfolding advances_def by fastforce
qed (auto simp: advances_def)

lemma RepeatMatcher_bound_suffices:
  assumes "advances n m" and "fst x \<le> n"
    and "lo + (n - fst x) < bound1" and "lo + (n - fst x) < bound2"
  shows "RepeatMatcher m gs bound1 lo hi x = RepeatMatcher m gs bound2 lo hi x"
  using assms(2-)
proof (induction bound1 arbitrary: bound2 lo hi x)
  case 0
  then show ?case by simp
next
  case (Suc bound1)
  from Suc.prems obtain k where k: "bound2 = Suc k"
    by (cases bound2) auto
  let ?x' = "(fst x, filter (\<lambda>c. fst c \<notin> set gs) (snd x))"
  let ?f = "\<lambda>bound y. if lo = 0 \<and> fst y = fst x then []
         else RepeatMatcher m gs bound (lo - 1) (map_option (\<lambda>h. h - 1) hi) y"
  have "?f bound1 y = ?f k y" if y: "y \<in> set (m ?x')" for y
  proof (cases "lo = 0 \<and> fst y = fst x")
    case True
    then show ?thesis by simp
  next
    case False
    from assms(1) y Suc.prems(1) have range: "fst x \<le> fst y" "fst y \<le> n"
      unfolding advances_def by fastforce+
    with False Suc.prems k have "lo - 1 + (n - fst y) < bound1" "lo - 1 + (n - fst y) < k"
      by auto
    from Suc.IH [OF range(2) this]
    have "RepeatMatcher m gs bound1 (lo - 1) (map_option (\<lambda>h. h - 1) hi) y
        = RepeatMatcher m gs k (lo - 1) (map_option (\<lambda>h. h - 1) hi) y" .
    with False show ?thesis by (simp only: if_not_P)
  qed
  then have "map (?f bound1) (m ?x') = map (?f k) (m ?x')"
    by (intro map_cong refl)
  then show ?case
    unfolding k RepeatMatcher.simps Let_def by (simp only:)
qed

lemma Repeat_bound_never_reached:
  assumes "fst x \<le> length s" and "lo + (length s - fst x) < bound"
  shows "matcher (Repeat lo hi r) ic s x
    = RepeatMatcher (matcher r ic s) (group_numbers r) bound lo hi x"
proof -
  have "lo + (length s - fst x) < lo + Suc (length s)"
    by simp
  from RepeatMatcher_bound_suffices [OF matcher_advances assms(1) this assms(2)]
  show ?thesis by (simp del: RepeatMatcher.simps)
qed

lemma forEach_invariant:
  assumes "forEach f xs st = Inr st'" and "P st"
    and "\<And>x a b. P a \<Longrightarrow> f x a = Inr b \<Longrightarrow> P b"
  shows "P st'"
  using assms by (induction xs arbitrary: st) (auto split: sum.splits)


lemma forEach_appends:
  assumes "forEach f xs st = Inr st'"
    and "\<And>x a b. f x a = Inr b \<Longrightarrow> g b = g a @ [h x]"
  shows "g st' = g st @ map h xs"
  using assms
proof (induction xs arbitrary: st)
  case Nil
  then show ?case by simp
next
  case (Cons x xs)
  from Cons.prems(1) obtain st1 where s1: "f x st = Inr st1" and rest: "forEach f xs st1 = Inr st'"
    by (auto split: sum.splits)
  from Cons.IH [OF rest Cons.prems(2)] Cons.prems(2) [OF s1] show ?case by simp
qed

lemma set_uniq_fold:
  "set (fold (\<lambda>x seen. if x \<in> set seen then seen else seen @ [x]) xs acc) = set acc \<union> set xs"
  by (induction xs arbitrary: acc) auto

lemma set_uniq: "set (uniq xs) = set xs"
  by (simp add: uniq_def set_uniq_fold)

lemma set_sortBy: "set (sortBy f xs) = set xs"
proof -
  have "set (sortBy f xs) = set (map fst (zip xs [0 ..< length xs]))"
    unfolding sortBy_def by (simp only: set_map set_Array_sort)
  also have "map fst (zip xs [0 ..< length xs]) = xs"
    by (rule map_fst_zip) simp
  finally show ?thesis .
qed






section \<open>Properties of analyzeRules\<close>

lemma fold_analyzeRule:
  "fold analyzeRule rs acc =
     acc @ map (\<lambda>r. \<lparr>count = length (the (rule_declarations r)), selector = rule_selectors r\<rparr>)
              (filter (\<lambda>r. rule_declarations r \<noteq> None) rs)"
  by (induction rs arbitrary: acc) (auto simp: analyzeRule_def split: option.splits)

text \<open>
  Claim C2, as the code has it. \<open>analyzeRules\<close> emits one \<open>{selector, count}\<close> entry for
  each rule whose \<open>declarations\<close> field is an array, the empty array included (its entry has
  count 0); a rule without a declaration array contributes no entry. The entries are the
  rules' selector lists and declaration counts, and the list is sorted descending by count,
  entries of equal count in the order of their rules.
\<close>

theorem analyzeRules_entries:
  "analyzeRules rs =
     sort_key (\<lambda>e. - int (count e))
       (map (\<lambda>r. \<lparr>count = length (the (rule_declarations r)), selector = rule_selectors r\<rparr>)
          (filter (\<lambda>r. rule_declarations r \<noteq> None) rs))
   \<and> mset (analyzeRules rs) =
       mset (map (\<lambda>r. \<lparr>count = length (the (rule_declarations r)), selector = rule_selectors r\<rparr>)
              (filter (\<lambda>r. rule_declarations r \<noteq> None) rs))
   \<and> length (analyzeRules rs) = length (filter (\<lambda>r. rule_declarations r \<noteq> None) rs)
   \<and> sorted_wrt (\<lambda>a b. count b \<le> count a) (analyzeRules rs)"
proof -
  have "analyzeRules rs =
     sort_key (\<lambda>e. - int (count e))
       (map (\<lambda>r. \<lparr>count = length (the (rule_declarations r)), selector = rule_selectors r\<rparr>)
          (filter (\<lambda>r. rule_declarations r \<noteq> None) rs))"
    unfolding analyzeRules_def fold_analyzeRule
    by (simp add: Array_sort_sort_key [where f = "\<lambda>e. - int (count e)", OF decreasingOrder_key])
  moreover have "mset (analyzeRules rs) =
       mset (map (\<lambda>r. \<lparr>count = length (the (rule_declarations r)), selector = rule_selectors r\<rparr>)
              (filter (\<lambda>r. rule_declarations r \<noteq> None) rs))"
    by (simp add: analyzeRules_def mset_Array_sort fold_analyzeRule)
  moreover have "length (analyzeRules rs) = length (filter (\<lambda>r. rule_declarations r \<noteq> None) rs)"
    by (simp add: analyzeRules_def length_Array_sort fold_analyzeRule)
  moreover have "sorted_wrt (\<lambda>a b. count b \<le> count a) (analyzeRules rs)"
    by (simp add: analyzeRules_def sorted_decreasingOrder)
  ultimately show ?thesis by blast
qed

text \<open>
  Claim C2 as stated fails: a rule with zero declarations is not omitted. The rule
  \<open>.a {}\<close> has the empty declaration array and yields the entry \<open>{selector: [".a"], count: 0}\<close>.
\<close>

theorem analyzeRules_empty_rule_counterexample:
  "analyzeRules [\<lparr>rule_selectors = [''.a''], rule_declarations = Some []\<rparr>]
     = [\<lparr>count = 0, selector = [''.a'']\<rparr>]"
  by (simp add: analyzeRules_def analyzeRule_def Array_sort_def)

section \<open>Properties of analyzeSelectors\<close>

lemma analyzeSelector_identifiers:
  assumes "analyzeSelector rt regexp sel st = Inr st'"
  shows "identifiers (fst st') = identifiers (fst st) @ [\<lparr>count = chain_length sel, selector = sel\<rparr>]"
  using assms unfolding analyzeSelector_def Let_def
  by (auto split: sum.splits)

lemma analyzeSelectors_identifiers:
  assumes "analyzeSelectors rt sels opts = Inr sa"
  shows "identifiers sa =
    Array_sort decreasingOrder (map (\<lambda>s. \<lparr>count = chain_length s, selector = s\<rparr>) sels)"
proof -
  from assms obtain regexp st where
    loop: "forEach (analyzeSelector rt regexp) sels
             (\<lparr>idSelectors = 0, universalSelectors = 0, attributeSelectors = 0,
               unqualifiedAttributeSelectors = 0, javascriptSpecificSelectors = 0,
               elementSelectors = 0, classSelectors = 0, identifiers = []\<rparr>, 0) = Inr st"
    and sa: "sa = (fst st)\<lparr>identifiers := Array_sort decreasingOrder (identifiers (fst st))\<rparr>"
    unfolding analyzeSelectors_def by (auto split: sum.splits)
  have "identifiers (fst st) = [] @ map (\<lambda>s. \<lparr>count = chain_length s, selector = s\<rparr>) sels"
    using forEach_appends [OF loop, where g = "\<lambda>st. identifiers (fst st)"
        and h = "\<lambda>s. \<lparr>count = chain_length s, selector = s\<rparr>"]
      analyzeSelector_identifiers
    by simp
  then show ?thesis by (simp add: sa)
qed

text \<open>
  Claim C4, evaluated on the code. With the hook pattern \<open>\.js-\<close> both \<open>.js-a\<close> and
  \<open>.js-b\<close> match the pattern, and \<open>.js-b\<close> analysed alone is counted; analysed after
  \<open>.js-a\<close> it is not, because the \<open>g\<close> flag makes \<open>regexp.test\<close> resume at the
  \<open>lastIndex\<close> the previous match left behind. The counter is 1 where the claim says 2.
\<close>

theorem javascriptSpecificSelectors_misses_second_match:
  "case_sum (\<lambda>e. False) (\<lambda>r. javascriptSpecificSelectors r = 1)
     (analyzeSelectors sample_runtime [''.js-a'', ''.js-b''] sample_options)
   \<and> case_sum (\<lambda>e. False)
        (\<lambda>regexp. length (filter (\<lambda>s. test regexp False (trim s)) [''.js-a'', ''.js-b'']) = 2)
        (RegExp sample_runtime (pattern_text (opt_javascriptSpecificSelectors sample_options)))
   \<and> case_sum (\<lambda>e. False) (\<lambda>r. javascriptSpecificSelectors r = 1)
        (analyzeSelectors sample_runtime [''.js-b''] sample_options)"
  by code_simp

text \<open>
  Claim C5, evaluated on the code. For the selector \<open>"  .a   >  .b ~ .c  "\<close> the code reports
  chain length 7: \<open>\s?\<close> removes one whitespace character on each side of a combinator
  only, the ends are not trimmed, and every empty piece of the split is counted. The
  procedure in the words of the specification gives 3. The selector \<open>".a   >  .b"\<close> gives
  4 against 2.
\<close>

theorem chain_length_counts_empty_pieces:
  "chain_length ''  .a   >  .b ~ .c  '' = 7 \<and> chain_length_spec ''  .a   >  .b ~ .c  '' = 3
   \<and> chain_length ''.a   >  .b'' = 4 \<and> chain_length_spec ''.a   >  .b'' = 2"
  by code_simp

section \<open>Properties of the colour normalizer and of analyzeDeclarations\<close>

text \<open>
  Claim C3, evaluated on the code. \<open>rgbRegex\<close> demands a comma after the third channel, so
  \<open>rgb(0,0,0)\<close> does not match it: the value yields no colour at all (it is tallied as
  unhandled) where the claim says \<open>#000000\<close>. The four-component
  \<open>rgba(255,255,255,0.5)\<close> is normalized to \<open>#FFFFFF\<close> as claimed.
\<close>

theorem rgb_without_alpha_not_extracted:
  "match rgbRegex False ''rgb(0,0,0)'' = None
   \<and> map_sum id (\<lambda>r. uniqueColor (fst r))
        (analyzeDeclarations sample_runtime
           [\<lparr>decl_property = ''color'', decl_value = ''rgb(0,0,0)'', decl_source = 1\<rparr>]
           sample_options []) = Inr []
   \<and> map_sum id (\<lambda>r. uniqueColor (fst r))
        (analyzeDeclarations sample_runtime
           [\<lparr>decl_property = ''color'', decl_value = ''rgba(255,255,255,0.5)'', decl_source = 1\<rparr>]
           sample_options []) = Inr [''#FFFFFF'']"
  by code_simp

lemma plain_steps_keep:
  "properties (result (dataUri_step d st)) = properties (result st)"
  "properties (result (important_step d st)) = properties (result st)"
  "properties (result (float_step d st)) = properties (result st)"
  "uniqueColor (result (dataUri_step d st)) = uniqueColor (result st)"
  "uniqueColor (result (important_step d st)) = uniqueColor (result st)"
  "uniqueColor (result (float_step d st)) = uniqueColor (result st)"
  by (simp_all add: dataUri_step_def important_step_def float_step_def)

lemma fontFamily_step_keeps:
  assumes "fontFamily_step d st = Inr st'"
  shows "properties (result st') = properties (result st)"
    and "uniqueColor (result st') = uniqueColor (result st)"
  using assms unfolding fontFamily_step_def Let_def
  by (auto split: if_splits sum.splits)

lemma fontSize_step_keeps:
  assumes "fontSize_step d st = Inr st'"
  shows "properties (result st') = properties (result st)"
    and "uniqueColor (result st') = uniqueColor (result st)"
  using assms unfolding fontSize_step_def Let_def
  by (auto split: if_splits sum.splits)

lemma addColor_each_keeps:
  assumes "addColor_each c acc = Inr acc'"
  shows "properties (result (snd acc')) = properties (result (snd acc))"
    and "set (uniqueColor (result (snd acc')))
           \<subseteq> set (uniqueColor (result (snd acc))) \<union> ({normalize_color c} - {''TRANSPARENT'', ''INHERIT''})"
  using assms unfolding addColor_each_def Let_def
  by (auto split: if_splits sum.splits)

lemma addColor_keeps:
  assumes "addColor colors st = Inr added"
  shows "properties (result (snd added)) = properties (result st)"
    and "''TRANSPARENT'' \<notin> set (uniqueColor (result st)) \<and> ''INHERIT'' \<notin> set (uniqueColor (result st))
         \<Longrightarrow> ''TRANSPARENT'' \<notin> set (uniqueColor (result (snd added)))
             \<and> ''INHERIT'' \<notin> set (uniqueColor (result (snd added)))"
proof -
  let ?clean = "\<lambda>s. ''TRANSPARENT'' \<notin> set (uniqueColor (result s))
                   \<and> ''INHERIT'' \<notin> set (uniqueColor (result s))"
  have same: "properties (result (snd b)) = properties (result st)"
    if "properties (result (snd a)) = properties (result st)" and "addColor_each c a = Inr b"
    for c a b
    using that addColor_each_keeps(1) [OF that(2)] by simp
  have step: "?clean (snd b)" if "?clean (snd a)" and "addColor_each c a = Inr b" for c a b
    using that addColor_each_keeps(2) [OF that(2)] by auto
  show "properties (result (snd added)) = properties (result st)"
  proof (cases colors)
    case None
    with assms show ?thesis by (auto simp: addColor_def)
  next
    case (Some cs)
    with assms have loop: "forEach addColor_each cs ([], st) = Inr added"
      by (simp add: addColor_def)
    show ?thesis
      by (rule forEach_invariant [OF loop,
            where P = "\<lambda>acc. properties (result (snd acc)) = properties (result st)"])
        (simp_all add: same)
  qed
  show "?clean (snd added)" if clean: "?clean st"
  proof (cases colors)
    case None
    with assms clean show ?thesis by (auto simp: addColor_def)
  next
    case (Some cs)
    with assms have loop: "forEach addColor_each cs ([], st) = Inr added"
      by (simp add: addColor_def)
    show ?thesis
    proof (rule forEach_invariant [OF loop, where P = "\<lambda>acc. ?clean (snd acc)"])
      show "?clean (snd ([], st))" using clean by simp
    next
      fix c a b
      assume "?clean (snd a)" and "addColor_each c a = Inr b"
      then show "?clean (snd b)" by (rule step)
    qed
  qed
qed

lemma color_step_keeps:
  assumes "color_step nc d st = Inr st'"
  shows "properties (result st') = properties (result st)"
    and "''TRANSPARENT'' \<notin> set (uniqueColor (result st)) \<and> ''INHERIT'' \<notin> set (uniqueColor (result st))
         \<Longrightarrow> ''TRANSPARENT'' \<notin> set (uniqueColor (result st'))
             \<and> ''INHERIT'' \<notin> set (uniqueColor (result st'))"
proof -
  show "properties (result st') = properties (result st)"
    using assms addColor_keeps(1) unfolding color_step_def Let_def
    by (auto split: if_splits sum.splits)
next
  assume "''TRANSPARENT'' \<notin> set (uniqueColor (result st)) \<and> ''INHERIT'' \<notin> set (uniqueColor (result st))"
  then show "''TRANSPARENT'' \<notin> set (uniqueColor (result st'))
             \<and> ''INHERIT'' \<notin> set (uniqueColor (result st'))"
    using assms addColor_keeps(2) unfolding color_step_def Let_def
    by (auto split: if_splits sum.splits)
qed

lemma property_step_uniqueColor:
  "uniqueColor (result (property_step d st)) = uniqueColor (result st)"
  unfolding property_step_def Let_def
  by (auto split: option.splits count_value.splits)


lemma analyzeDeclaration_steps:
  assumes "analyzeDeclaration nc d st = Inr st'"
  obtains s3 where "properties (result s3) = properties (result st)"
    and "uniqueColor (result st') = uniqueColor (result s3)"
    and "''TRANSPARENT'' \<notin> set (uniqueColor (result st)) \<and> ''INHERIT'' \<notin> set (uniqueColor (result st))
         \<longrightarrow> ''TRANSPARENT'' \<notin> set (uniqueColor (result s3))
             \<and> ''INHERIT'' \<notin> set (uniqueColor (result s3))"
    and "st' = property_step d s3"
proof -
  from assms obtain s1 s2 s3 where
    s1: "fontFamily_step d (float_step d (important_step d (dataUri_step d st))) = Inr s1"
    and s2: "fontSize_step d s1 = Inr s2"
    and s3: "color_step nc d s2 = Inr s3"
    and s4: "st' = property_step d s3"
    unfolding analyzeDeclaration_def by (auto split: sum.splits)
  have props: "properties (result s3) = properties (result st)"
    using color_step_keeps(1) [OF s3] fontSize_step_keeps(1) [OF s2] fontFamily_step_keeps(1) [OF s1]
    by (simp add: plain_steps_keep)
  have colors: "uniqueColor (result s2) = uniqueColor (result st)"
    using fontSize_step_keeps(2) [OF s2] fontFamily_step_keeps(2) [OF s1]
    by (simp add: plain_steps_keep)
  have clean: "''TRANSPARENT'' \<notin> set (uniqueColor (result st)) \<and> ''INHERIT'' \<notin> set (uniqueColor (result st))
         \<longrightarrow> ''TRANSPARENT'' \<notin> set (uniqueColor (result s3))
             \<and> ''INHERIT'' \<notin> set (uniqueColor (result s3))"
    using color_step_keeps(2) [OF s3] colors by simp
  have last: "uniqueColor (result st') = uniqueColor (result s3)"
    unfolding s4 by (rule property_step_uniqueColor)
  from props last clean s4 show ?thesis
    by (rule that)
qed


lemma analyzeDeclaration_no_keywords:
  assumes "analyzeDeclaration nc d st = Inr st'"
    and "''TRANSPARENT'' \<notin> set (uniqueColor (result st)) \<and> ''INHERIT'' \<notin> set (uniqueColor (result st))"
  shows "''TRANSPARENT'' \<notin> set (uniqueColor (result st')) \<and> ''INHERIT'' \<notin> set (uniqueColor (result st'))"
proof -
  from assms(1) obtain s3 where
    "properties (result s3) = properties (result st)"
    and "uniqueColor (result st') = uniqueColor (result s3)"
    and "''TRANSPARENT'' \<notin> set (uniqueColor (result st)) \<and> ''INHERIT'' \<notin> set (uniqueColor (result st))
         \<longrightarrow> ''TRANSPARENT'' \<notin> set (uniqueColor (result s3))
             \<and> ''INHERIT'' \<notin> set (uniqueColor (result s3))"
    and "st' = property_step d s3"
    by (rule analyzeDeclaration_steps)
  with assms(2) show ?thesis by simp
qed

lemma analyzeDeclarations_Inr:
  assumes "analyzeDeclarations rt ds opts sm = Inr (da, sm')"
  obtains nc st where
    "forEach (analyzeDeclaration nc) ds
       (initial_pass sm) = Inr st"
    "da = sortAnalyzeData (dataUriSizeToBytes (result st))"
  using assms unfolding analyzeDeclarations_def
  by (auto split: sum.splits)


text \<open>
  Claim C9. Whatever the declarations, the named-colour list and the runtime, when
  \<open>analyzeDeclarations\<close> returns, its \<open>uniqueColor\<close> list contains neither
  \<open>TRANSPARENT\<close> nor \<open>INHERIT\<close>. The filter acts after normalization: a candidate that
  equals one of the two keywords once \<open>!important\<close> is stripped and the rest is uppercased
  and trimmed is dropped by \<open>addColor\<close>, which leaves its state unchanged.
\<close>

theorem uniqueColor_never_transparent_or_inherit:
  assumes "analyzeDeclarations rt ds opts sm = Inr (da, sm')"
  shows "''TRANSPARENT'' \<notin> set (uniqueColor da) \<and> ''INHERIT'' \<notin> set (uniqueColor da)
    \<and> (\<forall>c acc. trim (toUpperCase (replace important False [] c)) = ''TRANSPARENT''
                \<or> trim (toUpperCase (replace important False [] c)) = ''INHERIT''
          \<longrightarrow> addColor_each c acc = Inr acc)"
proof -
  from assms obtain nc st where
    loop: "forEach (analyzeDeclaration nc) ds
       (initial_pass sm) = Inr st"
    and da: "da = sortAnalyzeData (dataUriSizeToBytes (result st))"
    by (rule analyzeDeclarations_Inr)
  have "''TRANSPARENT'' \<notin> set (uniqueColor (result st)) \<and> ''INHERIT'' \<notin> set (uniqueColor (result st))"
  proof (rule forEach_invariant [OF loop,
        where P = "\<lambda>st. ''TRANSPARENT'' \<notin> set (uniqueColor (result st))
                     \<and> ''INHERIT'' \<notin> set (uniqueColor (result st))"])
    show "''TRANSPARENT'' \<notin> set (uniqueColor (result (initial_pass sm)))
        \<and> ''INHERIT'' \<notin> set (uniqueColor (result (initial_pass sm)))"
      by (simp add: initial_pass_def)
  next
    fix d a b
    assume "''TRANSPARENT'' \<notin> set (uniqueColor (result a)) \<and> ''INHERIT'' \<notin> set (uniqueColor (result a))"
      and "analyzeDeclaration nc d a = Inr b"
    then show "''TRANSPARENT'' \<notin> set (uniqueColor (result b)) \<and> ''INHERIT'' \<notin> set (uniqueColor (result b))"
      using analyzeDeclaration_no_keywords by blast
  qed
  moreover have "set (uniqueColor da) = set (uniqueColor (result st))"
    by (simp add: da sortAnalyzeData_def dataUriSizeToBytes_def set_sortBy set_uniq)
  moreover have "\<not> test hex3 False ''TRANSPARENT''" "\<not> test hex3 False ''INHERIT''"
    by code_simp+
  then have "addColor_each c acc = Inr acc"
    if "trim (toUpperCase (replace important False [] c)) = ''TRANSPARENT''
        \<or> trim (toUpperCase (replace important False [] c)) = ''INHERIT''" for c acc
    using that unfolding addColor_each_def normalize_color_def Let_def by auto
  ultimately show ?thesis by blast
qed

text \<open>
  Witness for claim C9: the sample declarations, one of which is
  \<open>border-color: transparent !important\<close>, are analysed to the single colour \<open>RED\<close>.
\<close>

theorem uniqueColor_never_transparent_or_inherit_witness:
  "\<exists>da sm. analyzeDeclarations sample_runtime sample_declarations sample_options [] = Inr (da, sm)
     \<and> uniqueColor da = [''RED'']
     \<and> ''TRANSPARENT'' \<notin> set (uniqueColor da) \<and> ''INHERIT'' \<notin> set (uniqueColor da)
     \<and> trim (toUpperCase (replace important False [] ''transparent !important'')) = ''TRANSPARENT''
     \<and> addColor_each ''transparent !important'' ([], initial_pass []) = Inr ([], initial_pass [])"
proof -
  have "map_sum id (\<lambda>r. uniqueColor (fst r))
          (analyzeDeclarations sample_runtime sample_declarations sample_options []) = Inr [''RED'']"
    by code_simp
  then obtain da sm where
    da: "analyzeDeclarations sample_runtime sample_declarations sample_options [] = Inr (da, sm)"
    and colors: "uniqueColor da = [''RED'']"
    by (cases "analyzeDeclarations sample_runtime sample_declarations sample_options []") auto
  have norm: "trim (toUpperCase (replace important False [] ''transparent !important'')) = ''TRANSPARENT''"
    by code_simp
  from uniqueColor_never_transparent_or_inherit [OF da] norm
  have "addColor_each ''transparent !important'' ([], initial_pass []) = Inr ([], initial_pass [])"
    by blast
  with uniqueColor_never_transparent_or_inherit [OF da] da colors norm show ?thesis
    by blast
qed

section \<open>Properties of analyze\<close>

lemma analyze_Inr:
  assumes "analyze rt this = Inr r"
  obtains sa da sm gz where
    "analyzeSelectors rt (selectors this) (options this) = Inr sa"
    "analyzeDeclarations rt (declarations this) (options this) (sourceMap this) = Inr (da, sm)"
    "r = assemble this (analyzeRules (rules this)) sa da sm gz"
  using assms unfolding analyze_def Let_def
  by (auto split: sum.splits prod.splits if_splits)

lemma assemble_simplicity:
  "analysis_simplicity (assemble this ra sa da sm gz) =
     (if opt_rules (options this) \<and> opt_selectors (options this) \<and> opt_simplicity (options this)
      then Some (divide_numbers (length (rules this)) (length (selectors this))) else None)"
  by (simp add: assemble_def Let_def emit_if_def)

lemma assemble_ratioOfDataUriSize:
  "analysis_ratioOfDataUriSize (assemble this ra sa da sm gz) =
     (if opt_dataUriSize (options this) \<and> opt_ratioOfDataUriSize (options this) \<and> dataUriSize da \<noteq> 0
      then Some (divide_numbers (dataUriSize da) (cssSize this)) else None)"
  by (simp add: assemble_def Let_def emit_if_def)



lemma assemble_mostIdentifier:
  "analysis_mostIdentifier (assemble this ra sa da sm gz) =
     (case identifiers sa of [] \<Rightarrow> None
      | x # xs \<Rightarrow> if opt_mostIdentifier (options this) then Some (count x) else None)"
  by (simp add: assemble_def Let_def emit_if_def shift_def split: list.splits)

lemma assemble_mostIdentifierSelector:
  "analysis_mostIdentifierSelector (assemble this ra sa da sm gz) =
     (if opt_mostIdentifierSelector (options this) \<and> opt_mostIdentifierCount (options this) \<noteq> 0
      then Some (map selector (take (opt_mostIdentifierCount (options this)) (identifiers sa)))
      else None)"
  by (simp add: assemble_def Let_def emit_if_def)

lemma analyze_sample: "analyze sample_runtime sample_analyzer = Inr sample_analysis"
  by code_simp

lemma sample_options_enabled:
  "opt_mostIdentifier (options sample_analyzer)"
  "opt_mostIdentifierSelector (options sample_analyzer)"
  "opt_mostIdentifierCount (options sample_analyzer) \<noteq> 0"
  "opt_gzippedSize (options sample_analyzer)"
  "truthy (opt_javascriptSpecificSelectors (options sample_analyzer))"
  by (simp_all add: sample_analyzer_def sample_options_def truthy_def)

text \<open>
  Claim C1, as the code has it. In every analysis that returns, \<open>simplicity\<close> is present
  exactly when the options \<open>rules\<close>, \<open>selectors\<close> and \<open>simplicity\<close> are all enabled,
  and is then \<open>rules.length / selectors.length\<close> whatever the divisor;
  \<open>ratioOfDataUriSize\<close> is present exactly when the options \<open>dataUriSize\<close> and
  \<open>ratioOfDataUriSize\<close> are enabled and the computed data-URI size, the dividend, is not
  zero, and is then \<open>dataUriSize / cssSize\<close>. Otherwise the field is absent.
\<close>

theorem derived_metrics_emitted:
  assumes "analyze rt this = Inr r"
  shows "\<exists>da sm.
    analyzeDeclarations rt (declarations this) (options this) (sourceMap this) = Inr (da, sm)
    \<and> analysis_simplicity r =
        (if opt_rules (options this) \<and> opt_selectors (options this) \<and> opt_simplicity (options this)
         then Some (divide_numbers (length (rules this)) (length (selectors this))) else None)
    \<and> analysis_ratioOfDataUriSize r =
        (if opt_dataUriSize (options this) \<and> opt_ratioOfDataUriSize (options this)
            \<and> dataUriSize da \<noteq> 0
         then Some (divide_numbers (dataUriSize da) (cssSize this)) else None)"
proof -
  from assms obtain sa da sm gz where
    da: "analyzeDeclarations rt (declarations this) (options this) (sourceMap this) = Inr (da, sm)"
    and r: "r = assemble this (analyzeRules (rules this)) sa da sm gz"
    by (rule analyze_Inr)
  show ?thesis
    using da unfolding r assemble_simplicity assemble_ratioOfDataUriSize by blast
qed

text \<open>
  Witness for claim C1: the sample analysis returns, with \<open>simplicity\<close> 1/2 and
  \<open>ratioOfDataUriSize\<close> 26/112.
\<close>

theorem derived_metrics_emitted_witness:
  "analyze sample_runtime sample_analyzer = Inr sample_analysis
   \<and> analysis_simplicity sample_analysis = Some (Number (1 / 2))
   \<and> analysis_ratioOfDataUriSize sample_analysis = Some (Number (26 / 112))
   \<and> (\<exists>da sm.
        analyzeDeclarations sample_runtime (declarations sample_analyzer)
          (options sample_analyzer) (sourceMap sample_analyzer) = Inr (da, sm)
        \<and> analysis_simplicity sample_analysis =
            (if opt_rules (options sample_analyzer) \<and> opt_selectors (options sample_analyzer)
                \<and> opt_simplicity (options sample_analyzer)
             then Some (divide_numbers (length (rules sample_analyzer))
                          (length (selectors sample_analyzer)))
             else None)
        \<and> analysis_ratioOfDataUriSize sample_analysis =
            (if opt_dataUriSize (options sample_analyzer)
                \<and> opt_ratioOfDataUriSize (options sample_analyzer) \<and> dataUriSize da \<noteq> 0
             then Some (divide_numbers (dataUriSize da) (cssSize sample_analyzer)) else None))"
proof -
  have "analysis_simplicity sample_analysis = Some (Number (1 / 2))"
    and "analysis_ratioOfDataUriSize sample_analysis = Some (Number (26 / 112))"
    by (simp_all add: sample_analysis_def)
  with derived_metrics_emitted [OF analyze_sample] analyze_sample show ?thesis
    by blast
qed

text \<open>
  Claim C1 as stated fails: with the three options enabled and no selector at all, the
  divisor is zero and \<open>simplicity\<close> is still emitted, as \<open>Infinity\<close>.
\<close>

theorem derived_metrics_zero_divisor_counterexample:
  "selectors (sample_analyzer\<lparr>selectors := []\<rparr>) = []
   \<and> opt_rules (options (sample_analyzer\<lparr>selectors := []\<rparr>))
   \<and> opt_selectors (options (sample_analyzer\<lparr>selectors := []\<rparr>))
   \<and> opt_simplicity (options (sample_analyzer\<lparr>selectors := []\<rparr>))
   \<and> map_sum id analysis_simplicity (analyze sample_runtime (sample_analyzer\<lparr>selectors := []\<rparr>))
       = Inr (Some Infinity)"
  by code_simp

text \<open>
  Claim C6, as the code has it. \<open>analyze\<close> calls \<open>gzipSize.sync\<close> with no handler around
  it: when the option \<open>gzippedSize\<close> is enabled and the compression function fails, the
  analysis produces no result. The exception is the compression failure itself unless
  \<open>analyzeSelectors\<close> or \<open>analyzeDeclarations\<close> has already thrown.
\<close>

theorem gzip_failure_aborts_analyze:
  assumes "opt_gzippedSize (options this)"
    and "gzipSize_sync rt (cssString this) = Inl e"
  shows "isl (analyze rt this)
    \<and> analyze rt this =
        (case analyzeSelectors rt (selectors this) (options this) of
           Inl e1 \<Rightarrow> Inl e1
         | Inr sa \<Rightarrow>
             (case analyzeDeclarations rt (declarations this) (options this) (sourceMap this) of
                Inl e2 \<Rightarrow> Inl e2
              | Inr da \<Rightarrow> Inl e))"
  using assms unfolding analyze_def Let_def
  by (simp split: sum.splits prod.splits)

text \<open>Witness for claim C6: the sample analysis with a compression function that fails.\<close>

theorem gzip_failure_aborts_analyze_witness:
  "opt_gzippedSize (options sample_analyzer)
   \<and> gzipSize_sync failing_gzip (cssString sample_analyzer) = Inl CompressionError
   \<and> isl (analyze failing_gzip sample_analyzer)
   \<and> analyze failing_gzip sample_analyzer =
       (case analyzeSelectors failing_gzip (selectors sample_analyzer) (options sample_analyzer) of
          Inl e1 \<Rightarrow> Inl e1
        | Inr sa \<Rightarrow>
            (case analyzeDeclarations failing_gzip (declarations sample_analyzer)
                    (options sample_analyzer) (sourceMap sample_analyzer) of
               Inl e2 \<Rightarrow> Inl e2
             | Inr da \<Rightarrow> Inl CompressionError))"
proof -
  note enabled = sample_options_enabled(4)
  have fails: "gzipSize_sync failing_gzip (cssString sample_analyzer) = Inl CompressionError"
    by (simp add: failing_gzip_def)
  from gzip_failure_aborts_analyze [OF enabled fails] enabled fails show ?thesis
    by blast
qed

text \<open>
  Claim C6 as stated fails: the same stylesheet and options are analysed to a result when
  the compression function works, and to the exception \<open>CompressionError\<close>, with no result,
  when it fails.
\<close>

theorem gzip_failure_counterexample:
  "opt_gzippedSize (options sample_analyzer)
   \<and> gzipSize_sync failing_gzip (cssString sample_analyzer) = Inl CompressionError
   \<and> analyze failing_gzip sample_analyzer = Inl CompressionError
   \<and> analyze sample_runtime sample_analyzer = Inr sample_analysis"
proof -
  have "opt_gzippedSize (options sample_analyzer)
   \<and> gzipSize_sync failing_gzip (cssString sample_analyzer) = Inl CompressionError
   \<and> analyze failing_gzip sample_analyzer = Inl CompressionError"
    by code_simp
  with analyze_sample show ?thesis by blast
qed

text \<open>
  A property named like a member that every object inherits is counted by a string: the
  lookup \<open>result.properties[p]\<close> finds the inherited function, which is truthy, and
  \<open>+= 1\<close> appends \<open>1\<close> to its text. The pass goes on; the entry is no number.
\<close>

lemma property_step_inherited_name:
  "properties (result (property_step
      \<lparr>decl_property = ''constructor'', decl_value = ''none'', decl_source = 1\<rparr>
      (initial_pass [])))
   = [(''constructor'', Str ''function Object() { [native code] }1'')]"
  by (simp add: property_step_def initial_pass_def Object_prototype_keys_def
      inherited_member_text_def)




text \<open>
  Claim C8. In every analysis that returns with the options \<open>mostIdentifier\<close>,
  \<open>mostIdentifierSelector\<close> and \<open>mostIdentifierCount\<close> enabled, both metrics are read from
  one list, the identifiers of all selectors sorted descending by count:
  \<open>mostIdentifierSelector\<close> is the selectors of its first \<open>mostIdentifierCount\<close> entries,
  taken from the complete list, and \<open>mostIdentifier\<close> is the count of its head (absent when
  there is no selector).
\<close>

theorem mostIdentifier_same_ranking:
  assumes "analyze rt this = Inr r"
    and "opt_mostIdentifier (options this)"
    and "opt_mostIdentifierSelector (options this)"
    and "opt_mostIdentifierCount (options this) \<noteq> 0"
  shows "\<exists>sa. analyzeSelectors rt (selectors this) (options this) = Inr sa
    \<and> sorted_wrt (\<lambda>a b. count b \<le> count a) (identifiers sa)
    \<and> mset (identifiers sa)
        = mset (map (\<lambda>s. \<lparr>count = chain_length s, selector = s\<rparr>) (selectors this))
    \<and> analysis_mostIdentifierSelector r
        = Some (map selector (take (opt_mostIdentifierCount (options this)) (identifiers sa)))
    \<and> analysis_mostIdentifier r
        = (case identifiers sa of [] \<Rightarrow> None | x # xs \<Rightarrow> Some (count x))"
proof -
  from assms(1) obtain sa da sm gz where
    sa: "analyzeSelectors rt (selectors this) (options this) = Inr sa"
    and r: "r = assemble this (analyzeRules (rules this)) sa da sm gz"
    by (rule analyze_Inr)
  note ids = analyzeSelectors_identifiers [OF sa]
  have "sorted_wrt (\<lambda>a b. count b \<le> count a) (identifiers sa)"
    unfolding ids by (rule sorted_decreasingOrder)
  moreover have "mset (identifiers sa)
      = mset (map (\<lambda>s. \<lparr>count = chain_length s, selector = s\<rparr>) (selectors this))"
    unfolding ids by (rule mset_Array_sort)
  moreover have "analysis_mostIdentifierSelector r
      = Some (map selector (take (opt_mostIdentifierCount (options this)) (identifiers sa)))"
    unfolding r assemble_mostIdentifierSelector using assms by simp
  moreover have "analysis_mostIdentifier r
      = (case identifiers sa of [] \<Rightarrow> None | x # xs \<Rightarrow> Some (count x))"
    unfolding r assemble_mostIdentifier using assms by (simp split: list.splits)
  ultimately show ?thesis using sa by blast
qed

text \<open>Witness for claim C8: the sample analysis, two selectors and a top-2 list.\<close>

theorem mostIdentifier_same_ranking_witness:
  "analyze sample_runtime sample_analyzer = Inr sample_analysis
   \<and> opt_mostIdentifier (options sample_analyzer)
   \<and> opt_mostIdentifierSelector (options sample_analyzer)
   \<and> opt_mostIdentifierCount (options sample_analyzer) \<noteq> 0
   \<and> analysis_mostIdentifierSelector sample_analysis = Some [''.js-a'', ''.js-b'']
   \<and> analysis_mostIdentifier sample_analysis = Some 1
   \<and> (\<exists>sa. analyzeSelectors sample_runtime (selectors sample_analyzer) (options sample_analyzer)
              = Inr sa
        \<and> sorted_wrt (\<lambda>a b. count b \<le> count a) (identifiers sa)
        \<and> mset (identifiers sa)
            = mset (map (\<lambda>s. \<lparr>count = chain_length s, selector = s\<rparr>) (selectors sample_analyzer))
        \<and> analysis_mostIdentifierSelector sample_analysis
            = Some (map selector (take (opt_mostIdentifierCount (options sample_analyzer))
                                   (identifiers sa)))
        \<and> analysis_mostIdentifier sample_analysis
            = (case identifiers sa of [] \<Rightarrow> None | x # xs \<Rightarrow> Some (count x)))"
proof -
  have "analysis_mostIdentifierSelector sample_analysis = Some [''.js-a'', ''.js-b'']"
    and "analysis_mostIdentifier sample_analysis = Some 1"
    by (simp_all add: sample_analysis_def)
  with mostIdentifier_same_ranking [OF analyze_sample sample_options_enabled(1-3)]
    analyze_sample sample_options_enabled(1-3)
  show ?thesis by blast
qed



end
